theory Spec2Isabelle
  imports Main "HOL-Library.Product_Lexorder" "HOL-Library.List_Lexorder" "HOL-Library.Char_ord"
begin

section \<open>Dates\<close>

text \<open>
  A \<^verbatim>\<open>datetime.date\<close> is the triple (year, month, day). Python compares dates
  as these triples, lexicographically; that is the order of
  \<^theory_text>\<open>Product_Lexorder\<close>. The constructor \<^verbatim>\<open>date(y, m, d)\<close> raises
  \<^verbatim>\<open>ValueError\<close> outside years 1..9999, months 1..12 and the days of the month.
\<close>

type_synonym date = "int \<times> int \<times> int"

definition year :: "date \<Rightarrow> int" where
  "year d = fst d"

definition month :: "date \<Rightarrow> int" where
  "month d = fst (snd d)"

definition day :: "date \<Rightarrow> int" where
  "day d = snd (snd d)"

datatype error = ValueError | OverflowError | DivisionByZero | InvalidOperation | AttributeError

definition is_leap :: "int \<Rightarrow> bool" where
  "is_leap y = (y mod 4 = 0 \<and> (y mod 100 \<noteq> 0 \<or> y mod 400 = 0))"

definition days_in_month :: "int \<Rightarrow> int \<Rightarrow> int" where
  "days_in_month y m =
     (if m = 2 then (if is_leap y then 29 else 28)
      else if m = 4 \<or> m = 6 \<or> m = 9 \<or> m = 11 then 30 else 31)"

definition MAXYEAR :: int where
  "MAXYEAR = 9999"

definition valid_date :: "date \<Rightarrow> bool" where
  "valid_date d =
     (1 \<le> year d \<and> year d \<le> MAXYEAR \<and> 1 \<le> month d \<and> month d \<le> 12 \<and>
      1 \<le> day d \<and> day d \<le> days_in_month (year d) (month d))"

definition mk_date :: "int \<Rightarrow> int \<Rightarrow> int \<Rightarrow> error + date" where
  "mk_date y m d = (if valid_date (y, m, d) then Inr (y, m, d) else Inl ValueError)"

section \<open>Ledger entities\<close>

datatype tipo = Receita | Despesa

datatype status = Previsto | Realizado | Atrasado | Cancelado

text \<open>
  Money is a \<^verbatim>\<open>Decimal\<close> with two decimal places (\<^verbatim>\<open>decimal_places=2\<close>); it is
  modelled by its number of cents, an \<^typ>\<open>int\<close>.
\<close>

record category =
  cat_id :: nat
  nome :: string
  cat_tipo :: tipo
  dre_group :: string

record transaction =
  user :: nat
  work_order :: "nat option"
  tipo :: tipo
  status :: status
  valor :: int
  data_vencimento :: date
  data_pagamento :: "date option"
  account :: nat
  category :: category
  is_installment :: bool
  is_projection :: bool
  installment_group_id :: "nat option"
  installment_number :: "nat option"
  installment_total :: "nat option"
  invoice_number :: "string option"
  invoice_issued_at :: "date option"

section \<open>Transaction lifecycle\<close>

text \<open>
  \<^verbatim>\<open>Transaction.save\<close>. The clock \<^verbatim>\<open>timezone.now().date()\<close> is the parameter
  \<open>today\<close>; the result is the row that is written.
\<close>

definition save :: "date \<Rightarrow> transaction \<Rightarrow> transaction" where
  "save today tx =
     (if status tx = Cancelado then tx\<lparr>data_pagamento := None\<rparr>
      else if is_projection tx \<and> data_pagamento tx = None
        then tx\<lparr>status := Previsto, data_pagamento := None\<rparr>
      else if data_pagamento tx \<noteq> None then tx\<lparr>status := Realizado\<rparr>
      else if data_vencimento tx < today then tx\<lparr>status := Atrasado, data_pagamento := None\<rparr>
      else tx\<lparr>status := Previsto, data_pagamento := None\<rparr>)"

definition marcar_como_realizado :: "date \<Rightarrow> date option \<Rightarrow> transaction \<Rightarrow> transaction" where
  "marcar_como_realizado today dp tx =
     save today (tx\<lparr>status := Realizado,
                     data_pagamento := Some (case dp of Some d \<Rightarrow> d | None \<Rightarrow> today)\<rparr>)"

definition marcar_como_previsto :: "date \<Rightarrow> transaction \<Rightarrow> transaction" where
  "marcar_como_previsto today tx = save today (tx\<lparr>status := Previsto, data_pagamento := None\<rparr>)"

definition cancelar :: "date \<Rightarrow> transaction \<Rightarrow> transaction" where
  "cancelar today tx = save today (tx\<lparr>status := Cancelado, data_pagamento := None\<rparr>)"

text \<open>
  \<^verbatim>\<open>Transaction.clean\<close>, the model validation: the two checks on the payment date
  and the check that the category has the kind of the transaction.
\<close>

datatype validation_error = PagamentoAnteriorVencimento | PagamentoFuturo | CategoriaTipo

definition clean :: "date \<Rightarrow> transaction \<Rightarrow> validation_error + transaction" where
  "clean today tx =
     (case data_pagamento tx of
        Some dp \<Rightarrow>
          if dp < data_vencimento tx then Inl PagamentoAnteriorVencimento
          else if today < dp then Inl PagamentoFuturo
          else if tipo tx \<noteq> cat_tipo (category tx) then Inl CategoriaTipo
          else Inr tx
      | None \<Rightarrow> if tipo tx \<noteq> cat_tipo (category tx) then Inl CategoriaTipo else Inr tx)"

subsection \<open>The endpoints\<close>

text \<open>
  \<^verbatim>\<open>MarkAsCompletedForm\<close>: the confirmation box is required, the payment date is
  optional and \<^verbatim>\<open>clean_data_pagamento\<close> replaces a missing one by today.
\<close>

record mark_form =
  confirmacao :: bool
  form_data_pagamento :: "date option"

datatype mark_outcome =
    RejeitadoPrevisao
  | RejeitadoCancelado
  | JaRealizado
  | ContaIncompleta
  | FormInvalido
  | Marcado

text \<open>
  \<^verbatim>\<open>TransactionMarkAsCompletedView.post\<close>: the outcome shown to the user and the
  transaction as it is stored afterwards. \<open>account_complete\<close> is the test on the bank
  data of the account.
\<close>

definition mark_completed_post ::
  "date \<Rightarrow> bool \<Rightarrow> mark_form \<Rightarrow> transaction \<Rightarrow> mark_outcome \<times> transaction" where
  "mark_completed_post today account_complete form tx =
     (if is_projection tx then (RejeitadoPrevisao, tx)
      else if status tx = Cancelado then (RejeitadoCancelado, tx)
      else if status tx = Realizado then (JaRealizado, tx)
      else if \<not> account_complete then (ContaIncompleta, tx)
      else if confirmacao form then
        (Marcado,
         marcar_como_realizado today
           (Some (case form_data_pagamento form of Some d \<Rightarrow> d | None \<Rightarrow> today)) tx)
      else (FormInvalido, tx))"

text \<open>
  \<^verbatim>\<open>TransactionMarkAsPendingView.post\<close> warns when the transaction is not realized
  and redirects; it stores nothing.
\<close>

definition mark_pending_post :: "transaction \<Rightarrow> bool \<times> transaction" where
  "mark_pending_post tx = (status tx \<noteq> Realizado, tx)"

text \<open>\<^verbatim>\<open>TransactionCancelView.post\<close>.\<close>

datatype cancel_outcome = ApenasParcelas | ParcelaRealizada | CanceladaOk

definition cancel_post :: "date \<Rightarrow> transaction \<Rightarrow> cancel_outcome \<times> transaction" where
  "cancel_post today tx =
     (if \<not> is_installment tx then (ApenasParcelas, tx)
      else if status tx = Realizado then (ParcelaRealizada, tx)
      else (CanceladaOk, cancelar today tx))"

section \<open>Month arithmetic\<close>

text \<open>
  \<^verbatim>\<open>next_month - timedelta(days=1)\<close>: the day before a date. Python raises
  \<^verbatim>\<open>OverflowError\<close> before 0001-01-01.
\<close>

definition minus_one_day :: "date \<Rightarrow> error + date" where
  "minus_one_day d =
     (if 1 < day d then Inr (year d, month d, day d - 1)
      else if 1 < month d then Inr (year d, month d - 1, days_in_month (year d) (month d - 1))
      else if 1 < year d then Inr (year d - 1, 12, 31)
      else Inl OverflowError)"

text \<open>\<^verbatim>\<open>_last_day_of_month\<close> of \<^verbatim>\<open>finance/services.py\<close>.\<close>

definition last_day_of_month :: "date \<Rightarrow> error + date" where
  "last_day_of_month v =
     (if month v = 12 then mk_date (year v) 12 31
      else (case mk_date (year v) (month v + 1) 1 of
              Inl e \<Rightarrow> Inl e
            | Inr next_month \<Rightarrow> minus_one_day next_month))"

text \<open>
  \<^verbatim>\<open>_add_months\<close>, written twice in \<^verbatim>\<open>finance/views.py\<close> with the same body
  (\<^verbatim>\<open>TransactionCreateView\<close> and \<^verbatim>\<open>WorkOrderPaymentView\<close>). Python's \<^verbatim>\<open>//\<close>
  and \<^verbatim>\<open>%\<close> are \<open>div\<close> and \<open>mod\<close> on \<^typ>\<open>int\<close>.
\<close>

definition add_months :: "date \<Rightarrow> int \<Rightarrow> error + date" where
  "add_months base_date months =
     (let y = year base_date + (month base_date - 1 + months) div 12;
          m = (month base_date - 1 + months) mod 12 + 1
      in case mk_date y m 1 of
           Inl e \<Rightarrow> Inl e
         | Inr first \<Rightarrow>
             (case last_day_of_month first of
                Inl e \<Rightarrow> Inl e
              | Inr l \<Rightarrow> mk_date y m (min (day base_date) (day l))))"

text \<open>
  The date the specification describes for installment \<open>i\<close>: \<open>i\<close> calendar months after
  the first due date, the day clamped to the length of the target month.
\<close>

definition target_year :: "date \<Rightarrow> int \<Rightarrow> int" where
  "target_year d i = year d + (month d - 1 + i) div 12"

definition target_month :: "date \<Rightarrow> int \<Rightarrow> int" where
  "target_month d i = (month d - 1 + i) mod 12 + 1"

definition clamped_date :: "date \<Rightarrow> int \<Rightarrow> date" where
  "clamped_date d i =
     (target_year d i, target_month d i,
      min (day d) (days_in_month (target_year d i) (target_month d i)))"

section \<open>Installment generator\<close>

text \<open>
  \<^verbatim>\<open>(total_amount / installments).quantize(Decimal('0.01'))\<close>, in cents. The decimal
  context is the default one: 28 significant digits and \<^verbatim>\<open>ROUND_HALF_EVEN\<close>. The
  amounts have at most 15 digits and the divisor is at most 24, so the quotient is either
  a tie that 28 digits hold exactly or at least 1/48 of a cent away from one, and rounding
  the quotient to 28 digits first does not change the result: it is the quotient of the
  cents rounded to the nearest integer, ties to the even one.
\<close>

definition quantize_cents :: "int \<Rightarrow> int \<Rightarrow> int" where
  "quantize_cents c n =
     (let q = c div n; r = c mod n
      in if 2 * r < n then q
         else if n < 2 * r then q + 1
         else if even q then q else q + 1)"

text \<open>
  The loop \<^verbatim>\<open>for idx in range(installments)\<close> inside \<^verbatim>\<open>atomic()\<close>: an exception
  in one round leaves nothing created.
\<close>

fun create_all :: "(nat \<Rightarrow> error + transaction) \<Rightarrow> nat list \<Rightarrow> error + transaction list" where
  "create_all mk [] = Inr []"
| "create_all mk (idx # idxs) =
     (case mk idx of
        Inl e \<Rightarrow> Inl e
      | Inr tx \<Rightarrow> (case create_all mk idxs of Inl e \<Rightarrow> Inl e | Inr txs \<Rightarrow> Inr (tx # txs)))"

subsection \<open>Expense split\<close>

record expense_form =
  form_valor :: "int option"
  form_data_vencimento :: date
  form_account :: nat
  form_category :: category

text \<open>
  One round of the loop of \<^verbatim>\<open>TransactionCreateView._create_expense_installments\<close>.
  \<^verbatim>\<open>Transaction.objects.create\<close> builds the row with the defaults of the model and
  calls \<^verbatim>\<open>save\<close>.
\<close>

definition expense_installment ::
  "date \<Rightarrow> nat \<Rightarrow> nat \<Rightarrow> expense_form \<Rightarrow> nat \<Rightarrow> int \<Rightarrow> int \<Rightarrow> nat
     \<Rightarrow> error + transaction" where
  "expense_installment today usr gid form installments base_value remainder idx =
     (let installment_value =
            (if idx = installments - 1 then base_value + remainder else base_value)
      in case add_months (form_data_vencimento form) (int idx) of
           Inl e \<Rightarrow> Inl e
         | Inr due_date \<Rightarrow>
             Inr (save today
               \<lparr>user = usr, work_order = None, tipo = Despesa, status = Previsto,
                valor = installment_value, data_vencimento = due_date, data_pagamento = None,
                account = form_account form, category = form_category form,
                is_installment = True, is_projection = False,
                installment_group_id = Some gid, installment_number = Some (idx + 1),
                installment_total = Some installments,
                invoice_number = None, invoice_issued_at = None\<rparr>))"

text \<open>
  \<^verbatim>\<open>_create_expense_installments\<close>; \<open>usr\<close> is the user of the request and
  \<open>gid\<close> the fresh \<^verbatim>\<open>uuid4()\<close>. Dividing a
  \<^verbatim>\<open>Decimal\<close> by zero raises.
\<close>

definition create_expense_installments ::
  "date \<Rightarrow> nat \<Rightarrow> nat \<Rightarrow> expense_form \<Rightarrow> nat \<Rightarrow> error + transaction list" where
  "create_expense_installments today usr gid form installments =
     (let total_amount = (case form_valor form of Some v \<Rightarrow> v | None \<Rightarrow> 0)
      in if installments = 0
         then Inl (if total_amount = 0 then InvalidOperation else DivisionByZero)
         else
           (let base_value = quantize_cents total_amount (int installments);
                remainder = total_amount - base_value * int installments
            in create_all
                 (expense_installment today usr gid form installments base_value remainder)
                 [0..<installments]))"

subsection \<open>Work-order billing\<close>

record work_order_rec =
  wo_id :: nat
  labor_cost :: "int option"
  closed_on :: "date option"
  finished_at :: "date option"

record payment_form =
  pf_installments :: "int option"
  pf_first_due_date :: "date option"
  pf_confirm_regenerate :: bool

datatype post_error =
    SemDataTermino
  | JaPossuiParcelas
  | JaPossuiRecebimento
  | FormularioInvalido
  | ValorNaoInformado
  | ContaOuCategoriaNaoEncontrada
  | ConfirmeRecriacao
  | Excecao error

definition get_end_date :: "work_order_rec \<Rightarrow> date option" where
  "get_end_date order =
     (case closed_on order of Some d \<Rightarrow> Some d | None \<Rightarrow> finished_at order)"

text \<open>
  \<^verbatim>\<open>WorkOrderPaymentForm\<close>: the count is required and within 1..24, the first due
  date is required; \<^verbatim>\<open>clean\<close> keeps the count at 1 or more. The result is the cleaned
  data of a valid form (count, first due date, confirmation), \<open>None\<close> for an invalid one.
\<close>

definition payment_form_cleaned :: "payment_form \<Rightarrow> (nat \<times> date \<times> bool) option" where
  "payment_form_cleaned form =
     (case (pf_installments form, pf_first_due_date form) of
        (Some n, Some d) \<Rightarrow>
          if 1 \<le> n \<and> n \<le> 24 then Some (nat (max 1 n), d, pf_confirm_regenerate form)
          else None
      | _ \<Rightarrow> None)"

definition of_order :: "work_order_rec \<Rightarrow> transaction \<Rightarrow> bool" where
  "of_order order tx = (work_order tx = Some (wo_id order))"

text \<open>One round of the loop of \<^verbatim>\<open>WorkOrderPaymentView.post\<close>.\<close>

definition workorder_installment ::
  "date \<Rightarrow> nat \<Rightarrow> nat \<Rightarrow> work_order_rec \<Rightarrow> nat \<Rightarrow> category \<Rightarrow> date \<Rightarrow> nat \<Rightarrow> int \<Rightarrow> int
     \<Rightarrow> nat \<Rightarrow> error + transaction" where
  "workorder_installment today usr gid order acc cat first_due_date installments base_value
     remainder idx =
     (let installment_value =
            (if idx = installments - 1 then base_value + remainder else base_value)
      in case (if idx = 0 then Inr first_due_date else add_months first_due_date (int idx)) of
           Inl e \<Rightarrow> Inl e
         | Inr due_date \<Rightarrow>
             Inr (save today
               \<lparr>user = usr, work_order = Some (wo_id order), tipo = Receita,
                status = Previsto,
                valor = installment_value, data_vencimento = due_date, data_pagamento = None,
                account = acc, category = cat,
                is_installment = True, is_projection = True,
                installment_group_id = Some gid, installment_number = Some (idx + 1),
                installment_total = Some installments,
                invoice_number = None, invoice_issued_at = None\<rparr>))"

text \<open>
  The \<^verbatim>\<open>update\<close> that supersedes the earlier entries of the order which are neither
  installments nor canceled nor realized. It writes the rows directly, without \<^verbatim>\<open>save\<close>.
\<close>

definition supersede :: "work_order_rec \<Rightarrow> transaction list \<Rightarrow> transaction list" where
  "supersede order db =
     map (\<lambda>tx. if of_order order tx \<and> \<not> is_installment tx \<and> status tx \<noteq> Cancelado
                   \<and> status tx \<noteq> Realizado
                then tx\<lparr>status := Cancelado, data_pagamento := None\<rparr> else tx) db"

text \<open>
  \<^verbatim>\<open>WorkOrderPaymentView.post\<close>. \<open>db\<close> holds the transactions in the order of their
  creation; \<open>usr\<close> is the user of the request, \<open>gid\<close> the fresh \<^verbatim>\<open>uuid4()\<close>;
  \<open>primary_account\<close> and \<open>default_category\<close> are the answers of the two
  fallback queries. The result is the table after the update, and the installments
  created.
\<close>

definition workorder_payment_post ::
  "date \<Rightarrow> nat \<Rightarrow> nat \<Rightarrow> nat option \<Rightarrow> category option \<Rightarrow> work_order_rec \<Rightarrow> payment_form
     \<Rightarrow> transaction list \<Rightarrow> post_error + (transaction list \<times> transaction list)" where
  "workorder_payment_post today usr gid primary_account default_category order form db =
     (if get_end_date order = None then Inl SemDataTermino
      else if \<exists>tx \<in> set db. of_order order tx \<and> is_installment tx \<and> status tx \<noteq> Cancelado
        then Inl JaPossuiParcelas
      else if \<exists>tx \<in> set db. of_order order tx \<and> status tx = Realizado
        then Inl JaPossuiRecebimento
      else
        (case payment_form_cleaned form of
           None \<Rightarrow> Inl FormularioInvalido
         | Some (installments, first_due_date, confirm_regenerate) \<Rightarrow>
        (let total_amount = (case labor_cost order of Some v \<Rightarrow> v | None \<Rightarrow> 0)
         in if total_amount \<le> 0 then Inl ValorNaoInformado
            else
              (let base_txs = filter (\<lambda>tx. of_order order tx \<and> \<not> is_installment tx) db;
                   acc = (if base_txs = [] then primary_account
                          else Some (account (last base_txs)));
                   cat = (if base_txs = [] then default_category
                          else Some (category (last base_txs)))
               in case (acc, cat) of
                    (Some a, Some c) \<Rightarrow>
                      (let canceled_exists =
                             (\<exists>tx \<in> set db. of_order order tx \<and> is_installment tx
                                \<and> status tx = Cancelado)
                       in if canceled_exists \<and> \<not> confirm_regenerate
                          then Inl ConfirmeRecriacao
                          else
                            (let base_value = quantize_cents total_amount (int installments);
                                 remainder = total_amount - base_value * int installments
                             in case create_all
                                       (workorder_installment today usr gid order a c
                                          first_due_date
                                          installments base_value remainder)
                                       [0..<installments] of
                                  Inl e \<Rightarrow> Inl (Excecao e)
                                | Inr created \<Rightarrow> Inr (supersede order db, created)))
                  | _ \<Rightarrow> Inl ContaOuCategoriaNaoEncontrada))))"

section \<open>Reports\<close>

text \<open>\<^verbatim>\<open>get_finance_queryset\<close>: a filter is applied when its argument is given.\<close>

definition get_finance_queryset ::
  "transaction list \<Rightarrow> nat option \<Rightarrow> nat option \<Rightarrow> nat option \<Rightarrow> transaction list" where
  "get_finance_queryset db usr account_id category_id =
     (let qs1 = (case usr of Some u \<Rightarrow> filter (\<lambda>tx. user tx = u) db | None \<Rightarrow> db);
          qs2 = (case account_id of Some a \<Rightarrow> filter (\<lambda>tx. account tx = a) qs1 | None \<Rightarrow> qs1)
      in case category_id of
           Some c \<Rightarrow> filter (\<lambda>tx. cat_id (category tx) = c) qs2
         | None \<Rightarrow> qs2)"

text \<open>
  \<^verbatim>\<open>apply_phase_filter\<close> returns the filtered rows and the name of the date column
  the reports group by.
\<close>

datatype date_field = DataVencimento | DataPagamento

definition field_date :: "date_field \<Rightarrow> transaction \<Rightarrow> date option" where
  "field_date f tx = (case f of DataVencimento \<Rightarrow> Some (data_vencimento tx)
                              | DataPagamento \<Rightarrow> data_pagamento tx)"

definition apply_phase_filter ::
  "transaction list \<Rightarrow> string \<Rightarrow> date \<Rightarrow> date \<Rightarrow> transaction list \<times> date_field" where
  "apply_phase_filter qs phase start_date end_date =
     (let qs1 = filter (\<lambda>tx. status tx \<noteq> Cancelado \<and> start_date \<le> data_vencimento tx
                             \<and> data_vencimento tx \<le> end_date) qs;
          qs2 = (if phase = ''futuro''
                 then filter (\<lambda>tx. status tx = Previsto \<or> status tx = Atrasado) qs1
                 else filter (\<lambda>tx. status tx = Realizado) qs1)
      in (qs2, DataVencimento))"

text \<open>
  \<^verbatim>\<open>_month_list\<close>: the first days of the months from the month of \<open>start_date\<close> to
  the month of \<open>end_date\<close>. The loop builds the next cursor with \<^verbatim>\<open>date(year, month, 1)\<close>
  before it tests it, so the constructor can raise after December 9999.
\<close>

definition month_rank :: "date \<Rightarrow> nat" where
  "month_rank d = (if valid_date d then nat (12 * (MAXYEAR + 1) + 1 - (12 * year d + month d))
                   else nat (12 * (MAXYEAR + 1) + 1))"

function month_list_loop :: "date \<Rightarrow> date \<Rightarrow> date list \<Rightarrow> error + date list" where
  "month_list_loop cursor end_cursor months =
     (if cursor \<le> end_cursor
      then (case mk_date (year cursor + month cursor div 12) (month cursor mod 12 + 1) 1 of
              Inl e \<Rightarrow> Inl e
            | Inr c \<Rightarrow> month_list_loop c end_cursor (months @ [cursor]))
      else Inr months)"
  by pat_completeness auto
termination
proof (relation "measure (\<lambda>(cursor, end_cursor, months). month_rank cursor)")
  show "wf (measure (\<lambda>(cursor, end_cursor, months). month_rank cursor))"
    by simp
next
  fix cursor end_cursor :: date and months :: "date list" and c :: date
  assume "mk_date (year cursor + month cursor div 12) (month cursor mod 12 + 1) 1 = Inr c"
  then have c: "c = (year cursor + month cursor div 12, month cursor mod 12 + 1, 1)"
    and v: "valid_date c"
    by (auto simp: mk_date_def split: if_splits)
  have "month_rank c < month_rank cursor"
  proof (cases "valid_date cursor")
    case True
    then have "month cursor = 12 \<or> (1 \<le> month cursor \<and> month cursor < 12)"
      by (auto simp: valid_date_def)
    then have "12 * year cursor + month cursor < 12 * year c + month c"
      by (auto simp: c year_def month_def)
    moreover have "12 * year c + month c \<le> 12 * (MAXYEAR + 1)"
      using v by (simp add: valid_date_def)
    ultimately show ?thesis using True v by (simp add: month_rank_def)
  next
    case False
    have "0 < 12 * year c + month c" "12 * year c + month c \<le> 12 * (MAXYEAR + 1)"
      using v by (simp_all add: valid_date_def)
    then show ?thesis using False v by (simp add: month_rank_def MAXYEAR_def)
  qed
  then show "((c, end_cursor, months @ [cursor]), (cursor, end_cursor, months))
               \<in> measure (\<lambda>(cursor, end_cursor, months). month_rank cursor)"
    by simp
qed

definition month_list :: "date \<Rightarrow> date \<Rightarrow> error + date list" where
  "month_list start_date end_date =
     month_list_loop (year start_date, month start_date, 1) (year end_date, month end_date, 1) []"

text \<open>
  The key \<^verbatim>\<open>strftime('%Y-%m')\<close> of a month is modelled by the pair (year, month);
  \<^verbatim>\<open>month_index\<close> is the dictionary from keys to column numbers, a later entry
  replacing an earlier one with the same key.
\<close>

definition month_key :: "date \<Rightarrow> int \<times> int" where
  "month_key d = (year d, month d)"

definition month_index :: "date list \<Rightarrow> (int \<times> int) \<rightharpoonup> nat" where
  "month_index months =
     fold (\<lambda>(idx, m) d. d(month_key m \<mapsto> idx)) (zip [0..<length months] months) Map.empty"

text \<open>\<^verbatim>\<open>TruncMonth\<close>: the first day of the month of a date.\<close>

definition trunc_month :: "date \<Rightarrow> date" where
  "trunc_month d = (year d, month d, 1)"

text \<open>
  \<^verbatim>\<open>.values(...).annotate(total=Sum('valor'))\<close>: one item for each value of the key
  among the rows, with the sum of the amounts of the rows that have it.
\<close>

definition values_annotate :: "(transaction \<Rightarrow> 'k) \<Rightarrow> transaction list \<Rightarrow> ('k \<times> int) list" where
  "values_annotate key rows =
     map (\<lambda>k. (k, sum_list (map valor (filter (\<lambda>tx. key tx = k) rows)))) (remdups (map key rows))"

subsection \<open>Category classifier\<close>

text \<open>
  A category name is the string of the bytes of its UTF-8 encoding; a keyword occurs in
  it as a run of code points exactly when it occurs as a run of bytes. \<^verbatim>\<open>str.lower()\<close>
  is a function of the Unicode tables of the interpreter: the classifier takes it as the
  parameter \<open>lower\<close>. On a name of ASCII characters it is \<open>ascii_lower\<close>, which the
  examples use on such names.
\<close>

definition ascii_lower_char :: "char \<Rightarrow> char" where
  "ascii_lower_char c =
     (let n = (of_char c :: nat) in if 65 \<le> n \<and> n \<le> 90 then char_of (n + 32) else c)"

definition ascii_lower :: "string \<Rightarrow> string" where
  "ascii_lower s = map ascii_lower_char s"

fun contains :: "string \<Rightarrow> string \<Rightarrow> bool" where
  "contains [] kw = (kw = [])"
| "contains (c # cs) kw = (take (length kw) (c # cs) = kw \<or> contains cs kw)"

definition match_category :: "(string \<Rightarrow> string) \<Rightarrow> string \<Rightarrow> string list \<Rightarrow> bool" where
  "match_category lower name keywords =
     (if name = [] then False else list_ex (\<lambda>keyword. contains (lower name) keyword) keywords)"

datatype dre_grp =
    ReceitaOperacional
  | ImpostosVenda
  | Cmv
  | DespesasVenda
  | DespesasFinanceiras
  | ReceitaFinanceira
  | DespesasGeraisAdm

text \<open>
  The chain of tests in the loop of \<^verbatim>\<open>build_dre_context\<close> that chooses the group an
  aggregated item is added to.
\<close>

definition classify :: "(string \<Rightarrow> string) \<Rightarrow> tipo \<Rightarrow> string \<Rightarrow> string \<Rightarrow> dre_grp" where
  "classify lower item_tipo category_name dre_group_name =
     (if item_tipo = Receita then
        (if dre_group_name = ''receita_financeira''
            \<or> match_category lower category_name
                 [''juros'', ''rendimento'', ''financeira'', ''tarifa'']
         then ReceitaFinanceira else ReceitaOperacional)
      else
        (if dre_group_name = ''impostos_venda''
            \<or> match_category lower category_name
                 [''imposto'', ''tributo'', ''iss'', ''icms'', ''simples'']
         then ImpostosVenda
         else if dre_group_name = ''cmv''
            \<or> match_category lower category_name
                 [''custo'', ''cmv'', ''cpv'', ''mercadoria'', ''producao'']
         then Cmv
         else if dre_group_name = ''despesas_venda''
            \<or> match_category lower category_name
                 [''venda'', ''comissao'', ''marketing'', ''publicidade'', ''frete'']
         then DespesasVenda
         else if dre_group_name = ''despesas_financeiras''
            \<or> match_category lower category_name
                 [''juros'', ''tarifa'', ''taxa'', ''banco'', ''financeira'']
         then DespesasFinanceiras
         else DespesasGeraisAdm))"

text \<open>The stored name of a group, as in \<^verbatim>\<open>Category.DRE_GROUP_CHOICES\<close>.\<close>

fun group_name :: "dre_grp \<Rightarrow> string" where
  "group_name ReceitaOperacional = ''receita_operacional''"
| "group_name ImpostosVenda = ''impostos_venda''"
| "group_name Cmv = ''cmv''"
| "group_name DespesasVenda = ''despesas_venda''"
| "group_name DespesasFinanceiras = ''despesas_financeiras''"
| "group_name ReceitaFinanceira = ''receita_financeira''"
| "group_name DespesasGeraisAdm = ''despesas_gerais_adm''"

subsection \<open>Income statement\<close>

type_synonym dre_item = "(tipo \<times> string \<times> string \<times> date option) \<times> int"

text \<open>
  The loop over the aggregated items. An item whose month is null makes
  \<^verbatim>\<open>item['month'].strftime\<close> raise; an item whose month is not a column is skipped.
\<close>

fun dre_loop ::
  "(string \<Rightarrow> string) \<Rightarrow> ((int \<times> int) \<rightharpoonup> nat) \<Rightarrow> dre_item list \<Rightarrow> (dre_grp \<Rightarrow> int list)
     \<Rightarrow> error + (dre_grp \<Rightarrow> int list)"
  where
  "dre_loop lower index [] groups = Inr groups"
| "dre_loop lower index
     (((item_tipo, category_name, dre_group_name, mon), item_total) # items) groups =
     (case mon of
        None \<Rightarrow> Inl AttributeError
      | Some m \<Rightarrow>
          (case index (month_key m) of
             None \<Rightarrow> dre_loop lower index items groups
           | Some idx \<Rightarrow>
               (let g = classify lower item_tipo category_name dre_group_name
                in dre_loop lower index items
                     (groups(g := (groups g)[idx := groups g ! idx + item_total])))))"

record dre_context =
  dre_months :: "date list"
  receita_operacional :: "int list"
  impostos_venda :: "int list"
  receita_liquida :: "int list"
  cmv :: "int list"
  lucro_bruto :: "int list"
  despesas_operacionais :: "int list"
  despesas_venda :: "int list"
  despesas_financeiras :: "int list"
  receita_financeira :: "int list"
  despesas_gerais_adm :: "int list"
  lucro_liquido :: "int list"

text \<open>
  \<^verbatim>\<open>build_dre_context\<close> over the table \<open>db\<close>, with \<^verbatim>\<open>str.lower\<close> as the
  parameter \<open>lower\<close>: the month columns and the value series
  of the eleven currency rows (the total of a row is the sum of its series). The three
  percentage rows divide decimals and are not part of this model.
\<close>

definition build_dre_context ::
  "(string \<Rightarrow> string) \<Rightarrow> transaction list \<Rightarrow> date \<Rightarrow> date \<Rightarrow> string \<Rightarrow> nat option \<Rightarrow> nat option
     \<Rightarrow> nat option \<Rightarrow> error + dre_context" where
  "build_dre_context lower db start_date end_date phase account_id category_id usr =
     (let qs = get_finance_queryset db usr account_id category_id;
          (qs', date_field) = apply_phase_filter qs phase start_date end_date
      in case month_list start_date end_date of
           Inl e \<Rightarrow> Inl e
         | Inr months \<Rightarrow>
             (let n = length months;
                  aggregates = values_annotate
                    (\<lambda>tx. (tipo tx, nome (category tx), dre_group (category tx),
                           map_option trunc_month (field_date date_field tx))) qs'
              in case dre_loop lower (month_index months) aggregates (\<lambda>g. replicate n 0) of
                   Inl e \<Rightarrow> Inl e
                 | Inr groups \<Rightarrow>
                     (let rl = map (\<lambda>idx. groups ReceitaOperacional ! idx
                                          - groups ImpostosVenda ! idx) [0..<n];
                          lb = map (\<lambda>idx. rl ! idx - groups Cmv ! idx) [0..<n];
                          dop = map (\<lambda>(a, b). a + b)
                                  (zip (groups DespesasVenda) (groups DespesasGeraisAdm));
                          ll = map (\<lambda>idx. lb ! idx - dop ! idx
                                          - groups DespesasFinanceiras ! idx
                                          + groups ReceitaFinanceira ! idx) [0..<n]
                      in Inr \<lparr>dre_months = months,
                              receita_operacional = groups ReceitaOperacional,
                              impostos_venda = groups ImpostosVenda,
                              receita_liquida = rl,
                              cmv = groups Cmv,
                              lucro_bruto = lb,
                              despesas_operacionais = dop,
                              despesas_venda = groups DespesasVenda,
                              despesas_financeiras = groups DespesasFinanceiras,
                              receita_financeira = groups ReceitaFinanceira,
                              despesas_gerais_adm = groups DespesasGeraisAdm,
                              lucro_liquido = ll\<rparr>)))"

subsection \<open>Cashflow\<close>

record cashflow_row =
  row_tipo :: tipo
  row_category_id :: nat
  category_name :: string
  values_list :: "int list"
  row_total :: int

type_synonym cashflow_item = "(tipo \<times> nat \<times> string \<times> date option) \<times> int"

text \<open>
  The dictionary \<^verbatim>\<open>rows\<close> keeps its keys in the order of their first insertion; it is
  an association list.
\<close>

fun lookup_row :: "'k \<Rightarrow> ('k \<times> 'v) list \<Rightarrow> 'v option" where
  "lookup_row k [] = None"
| "lookup_row k ((k', v) # al) = (if k = k' then Some v else lookup_row k al)"

fun store_row :: "'k \<Rightarrow> 'v \<Rightarrow> ('k \<times> 'v) list \<Rightarrow> ('k \<times> 'v) list" where
  "store_row k v [] = [(k, v)]"
| "store_row k v ((k', v') # al) = (if k = k' then (k, v) # al else (k', v') # store_row k v al)"

fun cashflow_loop ::
  "((int \<times> int) \<rightharpoonup> nat) \<Rightarrow> nat \<Rightarrow> cashflow_item list \<Rightarrow> ((tipo \<times> nat) \<times> cashflow_row) list
     \<Rightarrow> error + ((tipo \<times> nat) \<times> cashflow_row) list" where
  "cashflow_loop index n [] rows = Inr rows"
| "cashflow_loop index n (((item_tipo, category_id, name, mon), item_total) # items) rows =
     (case mon of
        None \<Rightarrow> Inl AttributeError
      | Some m \<Rightarrow>
          (let row_key = (item_tipo, category_id);
               row = (case lookup_row row_key rows of
                        Some r \<Rightarrow> r
                      | None \<Rightarrow> \<lparr>row_tipo = item_tipo, row_category_id = category_id,
                                  category_name = name, values_list = replicate n 0,
                                  row_total = 0\<rparr>);
               row' = (case index (month_key m) of
                         Some idx \<Rightarrow> row\<lparr>values_list := (values_list row)[idx := item_total]\<rparr>
                       | None \<Rightarrow> row)
           in cashflow_loop index n items (store_row row_key row' rows)))"

text \<open>\<^verbatim>\<open>totals[idx] += value\<close> for every row and every column of the row.\<close>

definition add_rows :: "nat \<Rightarrow> cashflow_row list \<Rightarrow> int list" where
  "add_rows n rows =
     fold (\<lambda>row totals. map (\<lambda>(t, v). t + v) (zip totals (values_list row))) rows
       (replicate n 0)"

record cashflow_context =
  cf_months :: "date list"
  receitas :: "cashflow_row list"
  despesas :: "cashflow_row list"
  totals_receita_list :: "int list"
  totals_despesa_list :: "int list"
  totals_saldo_list :: "int list"
  totals_saldo_final_list :: "int list"
  saldo_inicial_total :: int

text \<open>
  \<^verbatim>\<open>build_cashflow_context\<close> over the table \<open>db\<close>. The items are taken in the order
  of their first row in the table (the collation of \<^verbatim>\<open>order_by\<close> is the database's);
  the two lists of rows are sorted by category name afterwards, as in the source. The
  cells repeat the value series with the labels of the months and are left out.
\<close>

definition build_cashflow_context ::
  "transaction list \<Rightarrow> date \<Rightarrow> date \<Rightarrow> string \<Rightarrow> nat option \<Rightarrow> nat option \<Rightarrow> nat option
     \<Rightarrow> error + cashflow_context" where
  "build_cashflow_context db start_date end_date phase account_id category_id usr =
     (let qs = get_finance_queryset db usr account_id category_id;
          (qs', date_field) = apply_phase_filter qs phase start_date end_date
      in case month_list start_date end_date of
           Inl e \<Rightarrow> Inl e
         | Inr months \<Rightarrow>
             (let n = length months;
                  aggregates = values_annotate
                    (\<lambda>tx. (tipo tx, cat_id (category tx), nome (category tx),
                           map_option trunc_month (field_date date_field tx))) qs'
              in case cashflow_loop (month_index months) n aggregates [] of
                   Inl e \<Rightarrow> Inl e
                 | Inr rows \<Rightarrow>
                     (let rows' = map (\<lambda>(k, row). row\<lparr>row_total := sum_list (values_list row)\<rparr>) rows;
                          receita_rows =
                            sort_key category_name (filter (\<lambda>r. row_tipo r = Receita) rows');
                          despesa_rows =
                            sort_key category_name (filter (\<lambda>r. row_tipo r \<noteq> Receita) rows');
                          totals_receita = add_rows n receita_rows;
                          totals_despesa = add_rows n despesa_rows;
                          totals_saldo =
                            map (\<lambda>idx. totals_receita ! idx - totals_despesa ! idx) [0..<n];
                          saldo_inicial = 0;
                          totals_saldo_final =
                            map (\<lambda>idx. saldo_inicial + totals_saldo ! idx) [0..<n]
                      in Inr \<lparr>cf_months = months, receitas = receita_rows,
                              despesas = despesa_rows,
                              totals_receita_list = totals_receita,
                              totals_despesa_list = totals_despesa,
                              totals_saldo_list = totals_saldo,
                              totals_saldo_final_list = totals_saldo_final,
                              saldo_inicial_total = saldo_inicial\<rparr>)))"

text \<open>
  The loop of \<^verbatim>\<open>CashflowView.get_context_data\<close> over the monthly results: the
  balance at the start and at the end of each month, carried from month to month.
\<close>

fun view_saldo_loop :: "int \<Rightarrow> int list \<Rightarrow> int list \<Rightarrow> int list \<Rightarrow> int list \<times> int list" where
  "view_saldo_loop running_saldo [] saldo_inicial_values saldo_final_values =
     (saldo_inicial_values, saldo_final_values)"
| "view_saldo_loop running_saldo (v # resultado_values) saldo_inicial_values saldo_final_values =
     view_saldo_loop (running_saldo + v) resultado_values
       (saldo_inicial_values @ [running_saldo]) (saldo_final_values @ [running_saldo + v])"

text \<open>
  The accounts, and the running balance the specification describes: the sum of the
  opening balances of the active accounts plus the monthly results up to each month.
\<close>

record account_rec =
  acc_id :: nat
  acc_user :: nat
  saldo_inicial :: int
  ativa :: bool
  is_primary :: bool

definition opening_balance_sum :: "account_rec list \<Rightarrow> int" where
  "opening_balance_sum accounts = sum_list (map saldo_inicial (filter ativa accounts))"

definition described_running_balance :: "account_rec list \<Rightarrow> int list \<Rightarrow> int list" where
  "described_running_balance accounts nets =
     map (\<lambda>k. opening_balance_sum accounts + sum_list (take (Suc k) nets)) [0..<length nets]"

section \<open>Invoice issue and request sequences\<close>

record invoice_form =
  generate_nf :: bool
  nf_number :: "string option"
  nf_issued_at :: "date option"

datatype invoice_outcome = NfJaPaga | NfCancelada | NfFormInvalido | NfAtualizada

text \<open>
  \<^verbatim>\<open>InstallmentInvoiceView.post\<close>, on the fields of the transaction kept here.
  \<open>form_valid\<close> is the answer of \<^verbatim>\<open>form.is_valid()\<close>.
\<close>

definition installment_invoice_post ::
  "date \<Rightarrow> bool \<Rightarrow> invoice_form \<Rightarrow> transaction \<Rightarrow> invoice_outcome \<times> transaction" where
  "installment_invoice_post today form_valid form installment =
     (if status installment = Realizado then (NfJaPaga, installment)
      else if status installment = Cancelado then (NfCancelada, installment)
      else if \<not> form_valid then (NfFormInvalido, installment)
      else
        (NfAtualizada,
         save today
           (if generate_nf form
            then installment\<lparr>invoice_number := nf_number form,
                              invoice_issued_at := nf_issued_at form,
                              is_projection := False\<rparr>
            else installment\<lparr>invoice_number := None, invoice_issued_at := None\<rparr>)))"

text \<open>
  Requests that reach one transaction, each with the day it arrives on, and the
  transaction stored after a sequence of them.
\<close>

datatype request =
    MarkCompletedReq date bool mark_form
  | MarkPendingReq
  | ResaveReq date

fun handle_request :: "request \<Rightarrow> transaction \<Rightarrow> transaction" where
  "handle_request (MarkCompletedReq today account_complete form) tx =
     snd (mark_completed_post today account_complete form tx)"
| "handle_request MarkPendingReq tx = snd (mark_pending_post tx)"
| "handle_request (ResaveReq today) tx = save today tx"

definition run_requests :: "request list \<Rightarrow> transaction \<Rightarrow> transaction" where
  "run_requests reqs tx = fold handle_request reqs tx"

section \<open>Example data\<close>

definition cat_servicos :: category where
  "cat_servicos = \<lparr>cat_id = 1, nome = ''Servicos'', cat_tipo = Receita, dre_group = ''''\<rparr>"

definition cat_aluguel :: category where
  "cat_aluguel = \<lparr>cat_id = 2, nome = ''Aluguel'', cat_tipo = Despesa, dre_group = ''''\<rparr>"

definition tx_example :: transaction where
  "tx_example =
     \<lparr>user = 1, work_order = None, tipo = Receita, status = Previsto, valor = 10000,
      data_vencimento = (2026, 1, 15), data_pagamento = None, account = 1,
      category = cat_servicos, is_installment = False, is_projection = False,
      installment_group_id = None, installment_number = None, installment_total = None,
      invoice_number = None, invoice_issued_at = None\<rparr>"

definition expense_form_example :: expense_form where
  "expense_form_example =
     \<lparr>form_valor = Some 20000, form_data_vencimento = (2026, 1, 31), form_account = 1,
      form_category = cat_aluguel\<rparr>"

definition order_example :: work_order_rec where
  "order_example =
     \<lparr>wo_id = 7, labor_cost = Some 100000, closed_on = Some (2026, 1, 20), finished_at = None\<rparr>"

definition payment_form_example :: payment_form where
  "payment_form_example =
     \<lparr>pf_installments = Some 3, pf_first_due_date = Some (2026, 1, 31),
      pf_confirm_regenerate = False\<rparr>"

definition mark_form_example :: mark_form where
  "mark_form_example = \<lparr>confirmacao = True, form_data_pagamento = None\<rparr>"

definition installment_example :: transaction where
  "installment_example =
     \<lparr>user = 1, work_order = Some 7, tipo = Receita, status = Previsto, valor = 33333,
      data_vencimento = (2026, 1, 31), data_pagamento = None, account = 1,
      category = cat_servicos, is_installment = True, is_projection = True,
      installment_group_id = Some 99, installment_number = Some 1, installment_total = Some 3,
      invoice_number = None, invoice_issued_at = None\<rparr>"

definition expense_installment_example :: transaction where
  "expense_installment_example =
     \<lparr>user = 1, work_order = None, tipo = Despesa, status = Previsto, valor = 6667,
      data_vencimento = (2026, 1, 31), data_pagamento = None, account = 1,
      category = cat_aluguel, is_installment = True, is_projection = False,
      installment_group_id = Some 99, installment_number = Some 1, installment_total = Some 3,
      invoice_number = None, invoice_issued_at = None\<rparr>"

definition expense_installments_example :: "transaction list" where
  "expense_installments_example =
     [expense_installment_example,
      expense_installment_example\<lparr>data_vencimento := (2026, 2, 28),
        installment_number := Some 2\<rparr>,
      expense_installment_example\<lparr>valor := 6666, data_vencimento := (2026, 3, 31),
        installment_number := Some 3\<rparr>]"

definition installments_example :: "transaction list" where
  "installments_example =
     [installment_example,
      installment_example\<lparr>data_vencimento := (2026, 2, 28), installment_number := Some 2\<rparr>,
      installment_example\<lparr>valor := 33334, data_vencimento := (2026, 3, 31),
        installment_number := Some 3\<rparr>]"

definition tx_paid_next_month :: transaction where
  "tx_paid_next_month =
     tx_example\<lparr>status := Realizado, data_vencimento := (2026, 1, 31),
       data_pagamento := Some (2026, 2, 2)\<rparr>"

definition tx_paid_february :: transaction where
  "tx_paid_february =
     tx_example\<lparr>status := Realizado, valor := 5000, data_vencimento := (2026, 2, 10),
       data_pagamento := Some (2026, 2, 12)\<rparr>"

definition tx_due_last_year :: transaction where
  "tx_due_last_year =
     tx_example\<lparr>status := Realizado, data_vencimento := (2025, 12, 20),
       data_pagamento := Some (2026, 1, 5)\<rparr>"

definition accounts_example :: "account_rec list" where
  "accounts_example =
     [\<lparr>acc_id = 1, acc_user = 1, saldo_inicial = 100000, ativa = True, is_primary = True\<rparr>,
      \<lparr>acc_id = 2, acc_user = 1, saldo_inicial = 7000, ativa = False, is_primary = False\<rparr>]"

section \<open>Lifecycle: facts about \<open>save\<close>\<close>

lemma valor_save: "valor (save today tx) = valor tx"
  by (simp add: save_def)

lemma data_vencimento_save: "data_vencimento (save today tx) = data_vencimento tx"
  by (simp add: save_def)

lemma is_projection_save: "is_projection (save today tx) = is_projection tx"
  by (simp add: save_def)

lemma is_installment_save: "is_installment (save today tx) = is_installment tx"
  by (simp add: save_def)

lemma save_canceled: "status tx = Cancelado \<Longrightarrow> status (save today tx) = Cancelado"
  by (simp add: save_def)

lemma save_projection:
  assumes "is_projection tx" "data_pagamento tx = None" "status tx \<noteq> Cancelado"
  shows "status (save today tx) = Previsto" "data_pagamento (save today tx) = None"
  using assms by (simp_all add: save_def)



text \<open>
  C5, as stated, fails on the model methods: \<open>marcar_como_realizado\<close> and
  \<open>marcar_como_previsto\<close> overwrite the status before they call \<open>save\<close>, so a
  canceled transaction leaves them realized, or pending.
\<close>

theorem canceled_terminal_counterexample:
  "status (tx_example\<lparr>status := Cancelado\<rparr>) = Cancelado
   \<and> status (marcar_como_realizado (2026, 1, 10) None (tx_example\<lparr>status := Cancelado\<rparr>))
       = Realizado
   \<and> status (marcar_como_previsto (2026, 1, 10) (tx_example\<lparr>status := Cancelado\<rparr>))
       = Previsto"
  by (simp add: tx_example_def marcar_como_realizado_def marcar_como_previsto_def save_def)

lemma handle_request_canceled:
  "status tx = Cancelado \<Longrightarrow> status (handle_request req tx) = Cancelado"
  by (cases req) (simp_all add: mark_completed_post_def mark_pending_post_def save_canceled)

text \<open>
  C5, amended. The guard is in the endpoints: the mark-realized endpoint rejects a
  canceled transaction, the mark-pending endpoint stores nothing, and \<open>save\<close> keeps
  a canceled status. No sequence of these requests changes the status of a canceled
  transaction.
\<close>

theorem canceled_terminal_through_endpoints:
  "status tx = Cancelado \<Longrightarrow> status (run_requests reqs tx) = Cancelado"
  unfolding run_requests_def
  by (induction reqs arbitrary: tx) (simp_all add: handle_request_canceled)

theorem canceled_terminal_through_endpoints_witness:
  "status (run_requests
     [MarkCompletedReq (2026, 1, 10) True mark_form_example, MarkPendingReq,
      ResaveReq (2026, 1, 20)]
     (tx_example\<lparr>status := Cancelado\<rparr>)) = Cancelado"
  using canceled_terminal_through_endpoints
    [of "tx_example\<lparr>status := Cancelado\<rparr>"
        "[MarkCompletedReq (2026, 1, 10) True mark_form_example, MarkPendingReq,
          ResaveReq (2026, 1, 20)]"]
  by simp

text \<open>
  C9. The mark-realized endpoint stores the payment date it is given, or today, and
  never runs \<open>clean\<close>. A pending transaction due on 2026-01-15 that is marked as
  realized on 2026-01-10 without a date is stored with the payment date 2026-01-10,
  before its due date; marked with the date 2026-03-01 it is stored with a payment date
  after today. \<open>clean\<close> rejects both stored rows.
\<close>

theorem mark_completed_payment_date_unchecked:
  "mark_completed_post (2026, 1, 10) True mark_form_example tx_example
     = (Marcado, tx_example\<lparr>status := Realizado, data_pagamento := Some (2026, 1, 10)\<rparr>)
   \<and> data_vencimento tx_example = (2026, 1, 15)
   \<and> clean (2026, 1, 10)
         (snd (mark_completed_post (2026, 1, 10) True mark_form_example tx_example))
       = Inl PagamentoAnteriorVencimento
   \<and> data_pagamento (snd (mark_completed_post (2026, 1, 20) True
         (mark_form_example\<lparr>form_data_pagamento := Some (2026, 3, 1)\<rparr>) tx_example))
       = Some (2026, 3, 1)
   \<and> clean (2026, 1, 20)
         (snd (mark_completed_post (2026, 1, 20) True
            (mark_form_example\<lparr>form_data_pagamento := Some (2026, 3, 1)\<rparr>) tx_example))
       = Inl PagamentoFuturo"
  by (simp add: mark_completed_post_def marcar_como_realizado_def save_def clean_def
      tx_example_def mark_form_example_def cat_servicos_def)

section \<open>Installment generator: the rounds of the loop\<close>

lemma create_all_Inr:
  "create_all mk idxs = Inr txs \<Longrightarrow> list_all2 (\<lambda>idx tx. mk idx = Inr tx) idxs txs"
  by (induction idxs arbitrary: txs) (auto split: sum.splits)

lemma create_all_map:
  "(\<And>idx. idx \<in> set idxs \<Longrightarrow> mk idx = Inr (f idx)) \<Longrightarrow> create_all mk idxs = Inr (map f idxs)"
  by (induction idxs) auto

lemma create_all_Inl:
  "create_all mk idxs = Inl e \<Longrightarrow> \<exists>idx \<in> set idxs. mk idx = Inl e"
  by (induction idxs) (auto split: sum.splits)

lemma expense_installment_Inr:
  assumes "expense_installment today usr gid form n b r idx = Inr tx"
  shows "\<exists>due. add_months (form_data_vencimento form) (int idx) = Inr due \<and>
     tx = save today
            \<lparr>user = usr, work_order = None, tipo = Despesa, status = Previsto,
             valor = (if idx = n - 1 then b + r else b), data_vencimento = due,
             data_pagamento = None, account = form_account form,
             category = form_category form, is_installment = True, is_projection = False,
             installment_group_id = Some gid, installment_number = Some (idx + 1),
             installment_total = Some n, invoice_number = None, invoice_issued_at = None\<rparr>"
proof (cases "add_months (form_data_vencimento form) (int idx)")
  case (Inl e)
  with assms show ?thesis by (simp add: expense_installment_def)
next
  case (Inr due)
  with assms show ?thesis by (simp add: expense_installment_def)
qed

lemma workorder_installment_Inr:
  assumes "workorder_installment today usr gid order a c fd n b r idx = Inr tx"
  shows "\<exists>due. (if idx = 0 then Inr fd else add_months fd (int idx)) = Inr due \<and>
     tx = save today
            \<lparr>user = usr, work_order = Some (wo_id order), tipo = Receita, status = Previsto,
             valor = (if idx = n - 1 then b + r else b), data_vencimento = due,
             data_pagamento = None, account = a, category = c,
             is_installment = True, is_projection = True,
             installment_group_id = Some gid, installment_number = Some (idx + 1),
             installment_total = Some n, invoice_number = None, invoice_issued_at = None\<rparr>"
proof (cases "if idx = 0 then Inr fd else add_months fd (int idx)")
  case (Inl e)
  with assms show ?thesis by (simp add: workorder_installment_def)
next
  case (Inr due)
  with assms show ?thesis by (simp add: workorder_installment_def)
qed

lemma expense_installment_valor:
  assumes "expense_installment today usr gid form n b r idx = Inr tx"
  shows "valor tx = (if idx = n - 1 then b + r else b)"
proof -
  from expense_installment_Inr [OF assms] obtain due where
    "tx = save today
            \<lparr>user = usr, work_order = None, tipo = Despesa, status = Previsto,
             valor = (if idx = n - 1 then b + r else b), data_vencimento = due,
             data_pagamento = None, account = form_account form,
             category = form_category form, is_installment = True, is_projection = False,
             installment_group_id = Some gid, installment_number = Some (idx + 1),
             installment_total = Some n, invoice_number = None, invoice_issued_at = None\<rparr>"
    by blast
  then show ?thesis by (simp only: valor_save transaction.simps)
qed

lemma workorder_installment_valor:
  assumes "workorder_installment today usr gid order a c fd n b r idx = Inr tx"
  shows "valor tx = (if idx = n - 1 then b + r else b)"
proof -
  from workorder_installment_Inr [OF assms] obtain due where
    "tx = save today
            \<lparr>user = usr, work_order = Some (wo_id order), tipo = Receita, status = Previsto,
             valor = (if idx = n - 1 then b + r else b), data_vencimento = due,
             data_pagamento = None, account = a, category = c,
             is_installment = True, is_projection = True,
             installment_group_id = Some gid, installment_number = Some (idx + 1),
             installment_total = Some n, invoice_number = None, invoice_issued_at = None\<rparr>"
    by blast
  then show ?thesis by (simp only: valor_save transaction.simps)
qed

lemma workorder_installment_projection:
  assumes "workorder_installment today usr gid order a c fd n b r idx = Inr tx"
  shows "is_projection tx \<and> is_installment tx \<and> data_pagamento tx = None
         \<and> status tx = Previsto"
proof -
  from workorder_installment_Inr [OF assms] obtain due where
    "tx = save today
            \<lparr>user = usr, work_order = Some (wo_id order), tipo = Receita, status = Previsto,
             valor = (if idx = n - 1 then b + r else b), data_vencimento = due,
             data_pagamento = None, account = a, category = c,
             is_installment = True, is_projection = True,
             installment_group_id = Some gid, installment_number = Some (idx + 1),
             installment_total = Some n, invoice_number = None, invoice_issued_at = None\<rparr>"
    by blast
  then show ?thesis by (simp add: save_def)
qed

lemma workorder_post_InrD:
  assumes "workorder_payment_post today usr gid pa dc order form db = Inr (db', created)"
  shows "\<exists>n fd cf T a c.
     payment_form_cleaned form = Some (n, fd, cf) \<and> labor_cost order = Some T \<and> 0 < T \<and>
     create_all (workorder_installment today usr gid order a c fd n (quantize_cents T (int n))
        (T - quantize_cents T (int n) * int n)) [0..<n] = Inr created \<and>
     db' = supersede order db"
  using assms unfolding workorder_payment_post_def Let_def
  by (auto split: if_splits option.splits prod.splits sum.splits; blast)

lemma payment_form_cleaned_range:
  "payment_form_cleaned form = Some (n, fd, cf) \<Longrightarrow> 1 \<le> n \<and> n \<le> 24"
  by (auto simp: payment_form_cleaned_def split: option.splits if_splits)

section \<open>Work-order installments are projections\<close>

lemma fold_save_projection:
  assumes "is_projection tx" "data_pagamento tx = None" "status tx = Previsto"
  shows "is_projection (fold save days tx) \<and> data_pagamento (fold save days tx) = None
         \<and> status (fold save days tx) = Previsto"
  using assms
proof (induction days arbitrary: tx)
  case Nil
  then show ?case by simp
next
  case (Cons d days)
  have "is_projection (save d tx)" "data_pagamento (save d tx) = None"
    "status (save d tx) = Previsto"
    using Cons.prems by (simp_all add: save_def)
  from Cons.IH [OF this] show ?case by simp
qed

text \<open>
  C10, as stated, fails for an installment that has been canceled: the first of the
  three installments billed for the example order, canceled through the cancel endpoint,
  still is a projection without payment date and without invoice, and a save leaves it
  canceled, not pending.
\<close>

theorem projection_pending_counterexample:
  "map_sum id (hd \<circ> snd)
     (workorder_payment_post (2026, 1, 25) 1 99 (Some 1) (Some cat_servicos) order_example
        payment_form_example [])
     = Inr installment_example
   \<and> cancel_post (2026, 2, 1) installment_example
     = (CanceladaOk, installment_example\<lparr>status := Cancelado\<rparr>)
   \<and> is_projection (installment_example\<lparr>status := Cancelado\<rparr>)
   \<and> data_pagamento (installment_example\<lparr>status := Cancelado\<rparr>) = None
   \<and> invoice_number (installment_example\<lparr>status := Cancelado\<rparr>) = None
   \<and> status (save (2026, 2, 2) (installment_example\<lparr>status := Cancelado\<rparr>)) = Cancelado"
proof -
  have "map_sum id (hd \<circ> snd)
     (workorder_payment_post (2026, 1, 25) 1 99 (Some 1) (Some cat_servicos) order_example
        payment_form_example [])
     = Inr installment_example"
    by code_simp
  moreover have "cancel_post (2026, 2, 1) installment_example
     = (CanceladaOk, installment_example\<lparr>status := Cancelado\<rparr>)"
    by (simp add: cancel_post_def cancelar_def save_def installment_example_def)
  ultimately show ?thesis
    by (simp add: save_def installment_example_def)
qed

text \<open>
  C10, amended. Every installment the work-order billing creates is an installment
  flagged as projection, pending and without payment date. While a transaction is a
  projection without payment date and is not canceled, a save on any day makes it
  pending and leaves the flag and the empty payment date, so after any number of saves
  on any days the created installment is pending, never overdue; and the mark-realized
  endpoint rejects a projection and stores nothing.
\<close>

theorem billing_installments_stay_pending:
  assumes "workorder_payment_post today usr gid pa dc order form db = Inr (db', created)"
    and "tx \<in> set created"
  shows "is_projection tx \<and> is_installment tx \<and> data_pagamento tx = None
       \<and> status tx = Previsto
       \<and> status (fold save days tx) = Previsto
       \<and> is_projection (fold save days tx)
       \<and> data_pagamento (fold save days tx) = None
       \<and> mark_completed_post d account_complete form' (fold save days tx)
           = (RejeitadoPrevisao, fold save days tx)
       \<and> (is_projection t \<and> data_pagamento t = None \<and> status t \<noteq> Cancelado \<longrightarrow>
            status (save d t) = Previsto \<and> is_projection (save d t)
            \<and> data_pagamento (save d t) = None
            \<and> mark_completed_post d account_complete form' t = (RejeitadoPrevisao, t))"
proof -
  from workorder_post_InrD [OF assms(1)] obtain n fd T a c where
    "create_all (workorder_installment today usr gid order a c fd n (quantize_cents T (int n))
        (T - quantize_cents T (int n) * int n)) [0..<n] = Inr created"
    by blast
  then have "list_all2 (\<lambda>idx tx. workorder_installment today usr gid order a c fd n
        (quantize_cents T (int n)) (T - quantize_cents T (int n) * int n) idx = Inr tx)
        [0..<n] created"
    by (rule create_all_Inr)
  with assms(2) obtain idx where
    "workorder_installment today usr gid order a c fd n
        (quantize_cents T (int n)) (T - quantize_cents T (int n) * int n) idx = Inr tx"
    by (auto simp: list_all2_conv_all_nth in_set_conv_nth)
  then have p: "is_projection tx \<and> is_installment tx \<and> data_pagamento tx = None
      \<and> status tx = Previsto"
    by (rule workorder_installment_projection)
  then have f: "is_projection (fold save days tx) \<and> data_pagamento (fold save days tx) = None
      \<and> status (fold save days tx) = Previsto"
    by (simp add: fold_save_projection)
  then have m: "mark_completed_post d account_complete form' (fold save days tx)
      = (RejeitadoPrevisao, fold save days tx)"
    by (simp add: mark_completed_post_def)
  have g: "is_projection t \<and> data_pagamento t = None \<and> status t \<noteq> Cancelado \<longrightarrow>
      status (save d t) = Previsto \<and> is_projection (save d t)
      \<and> data_pagamento (save d t) = None
      \<and> mark_completed_post d account_complete form' t = (RejeitadoPrevisao, t)"
    by (simp add: save_def mark_completed_post_def)
  from p f m g show ?thesis by simp
qed

theorem billing_installments_stay_pending_witness:
  "workorder_payment_post (2026, 1, 25) 1 99 (Some 1) (Some cat_servicos) order_example
     payment_form_example []
     = Inr ([], [installment_example,
          installment_example\<lparr>data_vencimento := (2026, 2, 28), installment_number := Some 2\<rparr>,
          installment_example\<lparr>valor := 33334, data_vencimento := (2026, 3, 31),
            installment_number := Some 3\<rparr>])
   \<and> status (fold save [(2026, 2, 1), (2026, 6, 1)] installment_example) = Previsto
   \<and> mark_completed_post (2026, 6, 2) True mark_form_example
        (fold save [(2026, 2, 1), (2026, 6, 1)] installment_example)
       = (RejeitadoPrevisao, fold save [(2026, 2, 1), (2026, 6, 1)] installment_example)"
proof -
  have c: "workorder_payment_post (2026, 1, 25) 1 99 (Some 1) (Some cat_servicos) order_example
     payment_form_example []
     = Inr ([], [installment_example,
          installment_example\<lparr>data_vencimento := (2026, 2, 28), installment_number := Some 2\<rparr>,
          installment_example\<lparr>valor := 33334, data_vencimento := (2026, 3, 31),
            installment_number := Some 3\<rparr>])"
    by code_simp
  show ?thesis
    using c billing_installments_stay_pending [OF c, of installment_example
        "[(2026, 2, 1), (2026, 6, 1)]" "(2026, 6, 2)" True mark_form_example installment_example]
    by simp
qed

section \<open>Due dates\<close>

lemma days_in_month_bounds: "28 \<le> days_in_month y m \<and> days_in_month y m \<le> 31"
  by (simp add: days_in_month_def)

lemma last_day_of_month_first:
  assumes "1 \<le> y" "y \<le> MAXYEAR" "1 \<le> m" "m \<le> 12"
  shows "last_day_of_month (y, m, 1) = Inr (y, m, days_in_month y m)"
proof (cases "m = 12")
  case True
  then show ?thesis using assms
    by (simp add: last_day_of_month_def mk_date_def valid_date_def year_def month_def day_def
        days_in_month_def)
next
  case False
  with assms have v: "valid_date (y, m + 1, 1)"
    by (simp add: valid_date_def year_def month_def day_def days_in_month_def)
  show ?thesis using False assms v
    by (simp add: last_day_of_month_def mk_date_def minus_one_day_def year_def month_def day_def)
qed

lemma add_months_clamped:
  assumes "valid_date d" "0 \<le> i" "target_year d i \<le> MAXYEAR"
  shows "add_months d i = Inr (clamped_date d i)" "valid_date (clamped_date d i)"
proof -
  let ?y = "target_year d i" and ?m = "target_month d i"
  have m: "1 \<le> ?m" "?m \<le> 12" by (simp_all add: target_month_def)
  have "0 \<le> (month d - 1 + i) div 12"
    using assms by (simp add: valid_date_def pos_imp_zdiv_nonneg_iff)
  then have y: "1 \<le> ?y" using assms by (simp add: target_year_def valid_date_def)
  have v1: "valid_date (?y, ?m, 1)" using m y assms(3)
    by (simp add: valid_date_def year_def month_def day_def days_in_month_def)
  have l: "last_day_of_month (?y, ?m, 1) = Inr (?y, ?m, days_in_month ?y ?m)"
    using last_day_of_month_first [OF y assms(3) m] .
  show v2: "valid_date (clamped_date d i)"
    using m y assms(1,3) days_in_month_bounds [of ?y ?m]
    by (simp add: clamped_date_def valid_date_def year_def month_def day_def)
  have "add_months d i = mk_date ?y ?m (min (day d) (days_in_month ?y ?m))"
    using v1 l
    by (simp add: add_months_def Let_def target_year_def target_month_def mk_date_def day_def)
  then show "add_months d i = Inr (clamped_date d i)"
    using v2 by (simp add: mk_date_def clamped_date_def)
qed

lemma clamped_date_zero: "valid_date d \<Longrightarrow> clamped_date d 0 = d"
  by (cases d)
    (auto simp: clamped_date_def target_year_def target_month_def valid_date_def
      year_def month_def day_def)

lemma target_year_mono: "i \<le> j \<Longrightarrow> target_year d i \<le> target_year d j"
  by (simp add: target_year_def zdiv_mono1)

lemma months_later: "12 * target_year d i + target_month d i = 12 * year d + month d + i"
proof -
  have "12 * ((month d - 1 + i) div 12) + (month d - 1 + i) mod 12 = month d - 1 + i"
    by simp
  then show ?thesis by (simp add: target_year_def target_month_def)
qed

lemma workorder_post_ExcecaoD:
  assumes "workorder_payment_post today usr gid pa dc order form db = Inl (Excecao e)"
  shows "\<exists>n fd cf T a c.
     payment_form_cleaned form = Some (n, fd, cf) \<and>
     create_all (workorder_installment today usr gid order a c fd n (quantize_cents T (int n))
        (T - quantize_cents T (int n) * int n)) [0..<n] = Inl e"
  using assms unfolding workorder_payment_post_def Let_def
  by (auto split: if_splits option.splits prod.splits sum.splits; blast)

lemma due_of_round:
  assumes "valid_date fd" "target_year fd (int n - 1) \<le> MAXYEAR" "idx < n"
  shows "add_months fd (int idx) = Inr (clamped_date fd (int idx))"
    "(if idx = 0 then Inr fd else add_months fd (int idx)) = Inr (clamped_date fd (int idx))"
proof -
  have "target_year fd (int idx) \<le> target_year fd (int n - 1)"
    using assms(3) by (intro target_year_mono) simp
  then have t: "target_year fd (int idx) \<le> MAXYEAR" using assms(2) by simp
  show a: "add_months fd (int idx) = Inr (clamped_date fd (int idx))"
    using add_months_clamped(1) [OF assms(1) _ t] by simp
  show "(if idx = 0 then Inr fd else add_months fd (int idx)) = Inr (clamped_date fd (int idx))"
    using a assms(1) by (simp add: clamped_date_zero)
qed

lemma expense_due_dates:
  assumes "valid_date (form_data_vencimento form)"
    "target_year (form_data_vencimento form) (int n - 1) \<le> MAXYEAR" "0 < n"
  shows "\<exists>txs. create_expense_installments today usr gid form n = Inr txs
    \<and> map data_vencimento txs
        = map (\<lambda>idx. clamped_date (form_data_vencimento form) (int idx)) [0..<n]"
proof -
  let ?fd = "form_data_vencimento form"
  let ?T = "case form_valor form of Some v \<Rightarrow> v | None \<Rightarrow> 0"
  let ?b = "quantize_cents ?T (int n)"
  let ?r = "?T - ?b * int n"
  let ?f = "\<lambda>idx. save today
            \<lparr>user = usr, work_order = None, tipo = Despesa, status = Previsto,
             valor = (if idx = n - 1 then ?b + ?r else ?b),
             data_vencimento = clamped_date ?fd (int idx),
             data_pagamento = None, account = form_account form,
             category = form_category form, is_installment = True, is_projection = False,
             installment_group_id = Some gid, installment_number = Some (idx + 1),
             installment_total = Some n, invoice_number = None, invoice_issued_at = None\<rparr>"
  have "expense_installment today usr gid form n ?b ?r idx = Inr (?f idx)"
    if "idx \<in> set [0..<n]" for idx
  proof -
    from that have "idx < n" by simp
    from due_of_round(1) [OF assms(1,2) this] show ?thesis
      by (simp add: expense_installment_def)
  qed
  then have "create_all (expense_installment today usr gid form n ?b ?r) [0..<n]
      = Inr (map ?f [0..<n])"
    by (rule create_all_map)
  then have c: "create_expense_installments today usr gid form n = Inr (map ?f [0..<n])"
    using assms(3) by (simp add: create_expense_installments_def Let_def)
  have "map data_vencimento (map ?f [0..<n]) = map (\<lambda>idx. clamped_date ?fd (int idx)) [0..<n]"
    by (simp add: data_vencimento_save)
  with c show ?thesis by blast
qed

lemma workorder_due_dates:
  assumes "valid_date fd" "target_year fd (int n - 1) \<le> MAXYEAR"
    "payment_form_cleaned form = Some (n, fd, cf)"
  shows "workorder_payment_post today usr gid pa dc order form db \<noteq> Inl (Excecao e)"
    "workorder_payment_post today usr gid pa dc order form db = Inr (db', created) \<Longrightarrow>
       map data_vencimento created = map (\<lambda>idx. clamped_date fd (int idx)) [0..<n]"
proof -
  show "workorder_payment_post today usr gid pa dc order form db \<noteq> Inl (Excecao e)"
  proof
    assume "workorder_payment_post today usr gid pa dc order form db = Inl (Excecao e)"
    from workorder_post_ExcecaoD [OF this] assms(3) obtain T a c where
      "create_all (workorder_installment today usr gid order a c fd n (quantize_cents T (int n))
        (T - quantize_cents T (int n) * int n)) [0..<n] = Inl e"
      by auto
    from create_all_Inl [OF this] obtain idx where i: "idx < n"
      and l: "workorder_installment today usr gid order a c fd n (quantize_cents T (int n))
        (T - quantize_cents T (int n) * int n) idx = Inl e"
      by auto
    from due_of_round(2) [OF assms(1,2) i] l show False
      by (simp add: workorder_installment_def)
  qed
next
  assume "workorder_payment_post today usr gid pa dc order form db = Inr (db', created)"
  from workorder_post_InrD [OF this] assms(3) obtain T a c where
    "create_all (workorder_installment today usr gid order a c fd n (quantize_cents T (int n))
        (T - quantize_cents T (int n) * int n)) [0..<n] = Inr created"
    by auto
  then have la: "list_all2 (\<lambda>idx tx. workorder_installment today usr gid order a c fd n
        (quantize_cents T (int n)) (T - quantize_cents T (int n) * int n) idx = Inr tx)
        [0..<n] created"
    by (rule create_all_Inr)
  then have len: "length created = n" by (simp add: list_all2_lengthD [symmetric])
  have "data_vencimento (created ! i) = clamped_date fd (int i)" if i: "i < n" for i
  proof -
    from list_all2_nthD [OF la] i
    have "workorder_installment today usr gid order a c fd n
        (quantize_cents T (int n)) (T - quantize_cents T (int n) * int n) i
        = Inr (created ! i)"
      by simp
    from workorder_installment_Inr [OF this] obtain due where
      d: "(if i = 0 then Inr fd else add_months fd (int i)) = Inr due"
      and "data_vencimento (created ! i) = due"
      by (auto simp: data_vencimento_save)
    with due_of_round(2) [OF assms(1,2) i] show ?thesis by simp
  qed
  then show "map data_vencimento created = map (\<lambda>idx. clamped_date fd (int idx)) [0..<n]"
    using len by (intro nth_equalityI) simp_all
qed



section \<open>Installment amounts\<close>

lemma quantize_dvd: "0 < n \<Longrightarrow> n dvd T \<Longrightarrow> quantize_cents T n = T div n"
  by (auto simp: quantize_cents_def Let_def)

lemma quantize_cases:
  "(quantize_cents T n = T div n \<and> 2 * (T mod n) \<le> n
      \<and> (2 * (T mod n) = n \<longrightarrow> even (T div n)))
   \<or> (quantize_cents T n = T div n + 1 \<and> n \<le> 2 * (T mod n)
      \<and> (2 * (T mod n) = n \<longrightarrow> odd (T div n)))"
  by (simp add: quantize_cents_def Let_def)

lemma quantize_nearest:
  assumes "0 < n"
  shows "\<bar>2 * T - 2 * (quantize_cents T n * n)\<bar> \<le> n"
proof -
  define q where "q = T div n"
  define r where "r = T mod n"
  have T: "T = q * n + r" by (simp add: q_def r_def)
  have m: "0 \<le> r" "r < n" using assms by (simp_all add: r_def)
  show ?thesis
    using quantize_cases [of T n, folded q_def r_def] m
    by (auto simp: T algebra_simps)
qed

lemma quantize_tie_even:
  assumes "0 < n" "\<bar>2 * T - 2 * (quantize_cents T n * n)\<bar> = n"
  shows "even (quantize_cents T n)"
proof -
  define q where "q = T div n"
  define r where "r = T mod n"
  have T: "T = q * n + r" by (simp add: q_def r_def)
  have m: "0 \<le> r" "r < n" using assms by (simp_all add: r_def)
  show ?thesis
    using quantize_cases [of T n, folded q_def r_def] m assms(2)
    by (auto simp: T algebra_simps)
qed

lemma remainder_zero_iff:
  assumes "0 < n"
  shows "(T - quantize_cents T n * n = 0) = (n dvd T)"
proof
  assume "T - quantize_cents T n * n = 0"
  then have "T = quantize_cents T n * n" by simp
  then show "n dvd T" by (metis dvd_triv_right)
next
  assume "n dvd T"
  with assms show "T - quantize_cents T n * n = 0" by (simp add: quantize_dvd)
qed

text \<open>The amounts the loop hands to the rounds 0, ..., n - 1.\<close>

lemma valores_of_list_all2:
  assumes "list_all2 (\<lambda>idx tx. valor tx = (if idx = n - 1 then b + r else b)) [0..<n] txs"
  shows "map valor txs = map (\<lambda>idx. if idx = n - 1 then b + r else b) [0..<n]"
proof -
  from assms have len: "length txs = n" by (simp add: list_all2_lengthD [symmetric])
  have "\<And>i. i < n \<Longrightarrow> valor (txs ! i) = (if i = n - 1 then b + r else b)"
    using list_all2_nthD [OF assms] by simp
  then show ?thesis using len
    by (intro nth_equalityI) simp_all
qed

lemma loop_values_replicate:
  assumes "0 < n"
  shows "map (\<lambda>idx. if idx = n - 1 then b + r else b) [0..<n] = replicate (n - 1) b @ [b + r]"
proof -
  from assms obtain k where n: "n = Suc k" by (cases n) auto
  have "map (\<lambda>idx. if idx = k then b + r else b) [0..<k] = replicate k b"
    by (simp add: list_eq_iff_nth_eq)
  then show ?thesis by (simp add: n)
qed

lemma expense_valores:
  assumes "create_expense_installments today usr gid form n = Inr txs"
    and "form_valor form = Some T"
  shows "0 < n \<and> map valor txs =
    replicate (n - 1) (quantize_cents T (int n))
      @ [quantize_cents T (int n) + (T - quantize_cents T (int n) * int n)]"
proof -
  let ?b = "quantize_cents T (int n)"
  let ?r = "T - ?b * int n"
  from assms have n: "n \<noteq> 0"
    by (auto simp: create_expense_installments_def Let_def split: if_splits)
  with assms have "create_all (expense_installment today usr gid form n ?b ?r) [0..<n] = Inr txs"
    by (simp add: create_expense_installments_def Let_def)
  then have "list_all2 (\<lambda>idx tx. expense_installment today usr gid form n ?b ?r idx = Inr tx)
      [0..<n] txs"
    by (rule create_all_Inr)
  then have "list_all2 (\<lambda>idx tx. valor tx = (if idx = n - 1 then ?b + ?r else ?b)) [0..<n] txs"
    by (rule list_all2_mono) (rule expense_installment_valor)
  then have "map valor txs = map (\<lambda>idx. if idx = n - 1 then ?b + ?r else ?b) [0..<n]"
    by (rule valores_of_list_all2)
  with n show ?thesis using loop_values_replicate [of n ?b ?r] by simp
qed

lemma workorder_valores:
  assumes "workorder_payment_post today usr gid pa dc order form db = Inr (db', created)"
  shows "\<exists>n fd cf T. payment_form_cleaned form = Some (n, fd, cf) \<and> labor_cost order = Some T
     \<and> 0 < T \<and> 0 < n \<and> n \<le> 24 \<and>
     map valor created =
       replicate (n - 1) (quantize_cents T (int n))
         @ [quantize_cents T (int n) + (T - quantize_cents T (int n) * int n)]"
proof -
  from workorder_post_InrD [OF assms] obtain n fd cf T a c where
    f: "payment_form_cleaned form = Some (n, fd, cf)" and t: "labor_cost order = Some T" "0 < T"
    and c: "create_all (workorder_installment today usr gid order a c fd n
        (quantize_cents T (int n)) (T - quantize_cents T (int n) * int n)) [0..<n] = Inr created"
    by blast
  let ?b = "quantize_cents T (int n)"
  let ?r = "T - ?b * int n"
  from f have n: "0 < n" "n \<le> 24" using payment_form_cleaned_range [OF f] by simp_all
  from c have "list_all2 (\<lambda>idx tx. workorder_installment today usr gid order a c fd n ?b ?r idx
      = Inr tx) [0..<n] created"
    by (rule create_all_Inr)
  then have "list_all2 (\<lambda>idx tx. valor tx = (if idx = n - 1 then ?b + ?r else ?b)) [0..<n]
      created"
    by (rule list_all2_mono) (rule workorder_installment_valor)
  then have "map valor created = map (\<lambda>idx. if idx = n - 1 then ?b + ?r else ?b) [0..<n]"
    by (rule valores_of_list_all2)
  with n have "map valor created = replicate (n - 1) ?b @ [?b + ?r]"
    using loop_values_replicate [of n ?b ?r] by simp
  with f t n show ?thesis by blast
qed

text \<open>
  What the split of \<open>T\<close> into \<open>n\<close> amounts \<open>vs\<close> has to satisfy: there are \<open>n\<close>
  amounts, they add up to \<open>T\<close>, all before the last are equal, and the last one differs
  from them exactly when \<open>n\<close> does not divide \<open>T\<close>.
\<close>

lemma split_of_values:
  assumes "0 < n" "vs = replicate (n - 1) b @ [b + (T - b * int n)]"
    and "b = quantize_cents T (int n)"
  shows "length vs = n" "sum_list vs = T" "\<And>i. i < n - 1 \<Longrightarrow> vs ! i = b"
    "last vs = b + (T - b * int n)" "(last vs = b) = (int n dvd T)"
proof -
  from assms(1) obtain k where n: "n = Suc k" by (cases n) auto
  show "length vs = n" using assms(1,2) by simp
  show "sum_list vs = T" using assms(2) by (simp add: n sum_list_replicate algebra_simps)
  show "\<And>i. i < n - 1 \<Longrightarrow> vs ! i = b" using assms(2) by (simp add: nth_append)
  show l: "last vs = b + (T - b * int n)" using assms(2) by simp
  have "(T - b * int n = 0) = (int n dvd T)"
    unfolding assms(3) using assms(1) by (intro remainder_zero_iff) simp
  then show "(last vs = b) = (int n dvd T)" using l by simp
qed


lemma expense_example_created:
  "create_expense_installments (2026, 1, 10) 1 99 expense_form_example 3
     = Inr expense_installments_example"
  by code_simp

lemma workorder_example_created:
  "workorder_payment_post (2026, 1, 25) 1 99 (Some 1) (Some cat_servicos) order_example
     payment_form_example [] = Inr ([], installments_example)"
  by code_simp


text \<open>
  C7, as stated, fails: the base amount is the quotient rounded to the nearest cent,
  not cut off. 200.00 in three parts gives 66.67, 66.67 and 66.66, where the floor of
  the quotient is 66.66.
\<close>

theorem base_amount_floor_counterexample:
  "map_sum id (map valor)
     (create_expense_installments (2026, 1, 10) 1 99 expense_form_example 3)
     = Inr [6667, 6667, 6666]
   \<and> form_valor expense_form_example = Some 20000
   \<and> (20000 :: int) div 3 = 6666"
proof -
  have "map valor expense_installments_example = [6667, 6667, 6666]"
    by (simp add: expense_installments_example_def expense_installment_example_def)
  then have "map_sum id (map valor)
     (create_expense_installments (2026, 1, 10) 1 99 expense_form_example 3)
     = Inr [6667, 6667, 6666]"
    by (simp only: expense_example_created map_sum.simps)
  moreover have "form_valor expense_form_example = Some 20000"
    by (simp add: expense_form_example_def)
  moreover have "(20000 :: int) div 3 = 6666" by simp
  ultimately show ?thesis by (intro conjI)
qed

text \<open>
  C7, amended. The base amount is the total divided by the count and rounded to the
  nearest cent, a tie going to the even cent: it is the floor of the quotient or one cent
  more, at most half a cent from the quotient. Every installment before the last gets
  the base amount and the last gets the base amount plus the total minus \<open>n\<close> times the
  base amount.
\<close>

theorem installment_base_amount:
  assumes "0 < T" "1 \<le> n" "n \<le> 24"
  shows "(form_valor form = Some T
            \<and> create_expense_installments today usr gid form n = Inr txs \<longrightarrow>
          (\<forall>i < n - 1. valor (txs ! i) = quantize_cents T (int n))
          \<and> valor (last txs)
              = quantize_cents T (int n) + (T - quantize_cents T (int n) * int n))
       \<and> (labor_cost order = Some T \<and> payment_form_cleaned pform = Some (n, fd, cf)
            \<and> workorder_payment_post today usr gid pa dc order pform db = Inr (db', created) \<longrightarrow>
          (\<forall>i < n - 1. valor (created ! i) = quantize_cents T (int n))
          \<and> valor (last created)
              = quantize_cents T (int n) + (T - quantize_cents T (int n) * int n))
       \<and> quantize_cents T (int n)
           = (if 2 * (T mod int n) < int n \<or> (2 * (T mod int n) = int n \<and> even (T div int n))
              then T div int n else T div int n + 1)
       \<and> \<bar>2 * T - 2 * (quantize_cents T (int n) * int n)\<bar> \<le> int n
       \<and> (\<bar>2 * T - 2 * (quantize_cents T (int n) * int n)\<bar> = int n \<longrightarrow>
            even (quantize_cents T (int n)))"
proof -
  let ?b = "quantize_cents T (int n)"
  have n: "0 < n" "0 < int n" using assms(2) by simp_all
  have key: "(\<forall>i < n - 1. valor (xs ! i) = ?b) \<and> valor (last xs) = ?b + (T - ?b * int n)"
    if v: "map valor xs = replicate (n - 1) ?b @ [?b + (T - ?b * int n)]"
    for xs :: "transaction list"
  proof -
    note s = split_of_values [OF n(1) v refl]
    have len: "length xs = n" using s(1) by simp
    then have ne: "xs \<noteq> []" using n by auto
    have "\<And>i. i < n - 1 \<Longrightarrow> valor (xs ! i) = ?b" using s(3) len by simp
    moreover have "valor (last xs) = ?b + (T - ?b * int n)"
      using s(4) ne by (simp add: last_map)
    ultimately show ?thesis by simp
  qed
  have e: "form_valor form = Some T
            \<and> create_expense_installments today usr gid form n = Inr txs \<longrightarrow>
          (\<forall>i < n - 1. valor (txs ! i) = ?b) \<and> valor (last txs) = ?b + (T - ?b * int n)"
  proof
    assume "form_valor form = Some T
      \<and> create_expense_installments today usr gid form n = Inr txs"
    then have "map valor txs = replicate (n - 1) ?b @ [?b + (T - ?b * int n)]"
      using expense_valores [of today usr gid form n txs T] by simp
    from key [OF this]
    show "(\<forall>i < n - 1. valor (txs ! i) = ?b) \<and> valor (last txs) = ?b + (T - ?b * int n)" .
  qed
  have w: "labor_cost order = Some T \<and> payment_form_cleaned pform = Some (n, fd, cf)
            \<and> workorder_payment_post today usr gid pa dc order pform db = Inr (db', created) \<longrightarrow>
          (\<forall>i < n - 1. valor (created ! i) = ?b)
          \<and> valor (last created) = ?b + (T - ?b * int n)"
  proof
    assume "labor_cost order = Some T \<and> payment_form_cleaned pform = Some (n, fd, cf)
      \<and> workorder_payment_post today usr gid pa dc order pform db = Inr (db', created)"
    then have "map valor created = replicate (n - 1) ?b @ [?b + (T - ?b * int n)]"
      using workorder_valores [of today usr gid pa dc order pform db db' created] by auto
    from key [OF this]
    show "(\<forall>i < n - 1. valor (created ! i) = ?b)
      \<and> valor (last created) = ?b + (T - ?b * int n)" .
  qed
  have q: "?b = (if 2 * (T mod int n) < int n \<or> (2 * (T mod int n) = int n \<and> even (T div int n))
              then T div int n else T div int n + 1)"
    by (auto simp: quantize_cents_def Let_def)
  have r: "\<bar>2 * T - 2 * (?b * int n)\<bar> \<le> int n" using n(2) by (rule quantize_nearest)
  have t: "\<bar>2 * T - 2 * (?b * int n)\<bar> = int n \<longrightarrow> even ?b"
    using quantize_tie_even [OF n(2)] by blast
  show ?thesis by (intro conjI e w q r t)
qed

theorem installment_base_amount_witness:
  "create_expense_installments (2026, 1, 10) 1 99 expense_form_example 3
     = Inr expense_installments_example
   \<and> quantize_cents 20000 3 = 6667
   \<and> valor (expense_installments_example ! 0) = 6667
   \<and> valor (expense_installments_example ! 1) = 6667
   \<and> valor (last expense_installments_example) = 6667 + (20000 - 6667 * 3)
   \<and> workorder_payment_post (2026, 1, 25) 1 99 (Some 1) (Some cat_servicos) order_example
        payment_form_example [] = Inr ([], installments_example)
   \<and> quantize_cents 100000 3 = 33333
   \<and> valor (installments_example ! 0) = 33333
   \<and> valor (last installments_example) = 33333 + (100000 - 33333 * 3)"
proof -
  have f: "form_valor expense_form_example = Some 20000"
    by (simp add: expense_form_example_def)
  have l: "labor_cost order_example = Some 100000"
    by (simp add: order_example_def)
  have p: "payment_form_cleaned payment_form_example = Some (3, (2026, 1, 31), False)"
    by (simp add: payment_form_cleaned_def payment_form_example_def)
  have q: "quantize_cents 20000 3 = 6667" "quantize_cents 100000 3 = 33333"
    by (simp_all add: quantize_cents_def Let_def)
  have qi: "quantize_cents 20000 (int 3) = 6667" "quantize_cents 100000 (int 3) = 33333"
    using q by simp_all
  have h1: "0 < (20000::int)" "0 < (100000::int)" and h2: "1 \<le> (3::nat)" "(3::nat) \<le> 24"
    by simp_all
  have a: "(\<forall>i < 3 - 1. valor (expense_installments_example ! i)
              = quantize_cents 20000 (int 3))
    \<and> valor (last expense_installments_example)
        = quantize_cents 20000 (int 3) + (20000 - quantize_cents 20000 (int 3) * int 3)"
    using installment_base_amount [OF h1(1) h2, where form = expense_form_example
      and today = "(2026, 1, 10)" and usr = 1 and gid = 99
      and txs = expense_installments_example] f expense_example_created
    by blast
  have b: "(\<forall>i < 3 - 1. valor (installments_example ! i) = quantize_cents 100000 (int 3))
    \<and> valor (last installments_example)
        = quantize_cents 100000 (int 3) + (100000 - quantize_cents 100000 (int 3) * int 3)"
    using installment_base_amount [OF h1(2) h2, where order = order_example
      and pform = payment_form_example and fd = "(2026, 1, 31)" and cf = False
      and today = "(2026, 1, 25)" and usr = 1 and gid = 99 and pa = "Some 1"
      and dc = "Some cat_servicos" and db = "[]" and db' = "[]"
      and created = installments_example] l p workorder_example_created
    by blast
  from a have a0: "valor (expense_installments_example ! 0) = 6667"
    and a1: "valor (expense_installments_example ! 1) = 6667"
    and a2: "valor (last expense_installments_example) = 6667 + (20000 - 6667 * 3)"
    by (simp_all add: q)
  from b have b0: "valor (installments_example ! 0) = 33333"
    and b2: "valor (last installments_example) = 33333 + (100000 - 33333 * 3)"
    by (simp_all add: q)
  show ?thesis
    by (intro conjI expense_example_created workorder_example_created q a0 a1 a2 b0 b2)
qed
text \<open>
  C8, as stated, fails at the end of the calendar: one month after 9999-12-31 the year
  is 10000, the date constructor raises and the expense split of two installments
  starting there creates nothing.
\<close>

theorem month_clamping_counterexample:
  "valid_date (9999, 12, 31)
   \<and> add_months (9999, 12, 31) 1 = Inl ValueError
   \<and> create_expense_installments (2026, 1, 10) 1 99
        (expense_form_example\<lparr>form_data_vencimento := (9999, 12, 31)\<rparr>) 2 = Inl ValueError"
proof -
  have "valid_date (9999, 12, 31)"
    by (simp add: valid_date_def year_def month_def day_def MAXYEAR_def days_in_month_def)
  moreover have "add_months (9999, 12, 31) 1 = Inl ValueError"
    by (simp add: add_months_def mk_date_def valid_date_def year_def month_def day_def
        MAXYEAR_def)
  moreover have "create_expense_installments (2026, 1, 10) 1 99
        (expense_form_example\<lparr>form_data_vencimento := (9999, 12, 31)\<rparr>) 2 = Inl ValueError"
    by code_simp
  ultimately show ?thesis by (intro conjI)
qed

text \<open>
  C8, amended. For a first due date \<open>fd\<close> and a count \<open>n\<close> whose last target month
  is not after December 9999, the due date of every installment \<open>i < n\<close> is built
  without error: it lies \<open>i\<close> calendar months after the month of \<open>fd\<close>, and its day is
  the day of \<open>fd\<close> cut down to the length of that month. The expense split then creates
  its installments with these due dates, and the work-order billing never ends in the
  exception and gives its installments these due dates.
\<close>

theorem month_clamping:
  assumes "valid_date fd" "i < n" "target_year fd (int n - 1) \<le> MAXYEAR"
  shows "add_months fd (int i) = Inr (clamped_date fd (int i))
       \<and> valid_date (clamped_date fd (int i))
       \<and> 12 * year (clamped_date fd (int i)) + month (clamped_date fd (int i))
           = 12 * year fd + month fd + int i
       \<and> day (clamped_date fd (int i))
           = min (day fd) (days_in_month (year (clamped_date fd (int i)))
                                          (month (clamped_date fd (int i))))
       \<and> (form_data_vencimento form = fd \<longrightarrow>
            (\<exists>txs. create_expense_installments today usr gid form n = Inr txs
               \<and> map data_vencimento txs = map (\<lambda>idx. clamped_date fd (int idx)) [0..<n]))
       \<and> (payment_form_cleaned pform = Some (n, fd, cf) \<longrightarrow>
            workorder_payment_post today usr gid pa dc order pform db \<noteq> Inl (Excecao e)
            \<and> (workorder_payment_post today usr gid pa dc order pform db = Inr (db', created)
                \<longrightarrow> map data_vencimento created
                     = map (\<lambda>idx. clamped_date fd (int idx)) [0..<n]))"
proof -
  have n: "0 < n" using assms(2) by simp
  have a: "add_months fd (int i) = Inr (clamped_date fd (int i))"
    by (rule due_of_round(1) [OF assms(1,3,2)])
  have "target_year fd (int i) \<le> target_year fd (int n - 1)"
    using assms(2) by (intro target_year_mono) simp
  then have "target_year fd (int i) \<le> MAXYEAR" using assms(3) by simp
  then have v: "valid_date (clamped_date fd (int i))"
    using add_months_clamped(2) [OF assms(1)] by simp
  have m: "12 * year (clamped_date fd (int i)) + month (clamped_date fd (int i))
      = 12 * year fd + month fd + int i"
    using months_later [of fd "int i"] by (simp add: clamped_date_def year_def month_def)
  have d: "day (clamped_date fd (int i))
      = min (day fd) (days_in_month (year (clamped_date fd (int i)))
                                     (month (clamped_date fd (int i))))"
    by (simp add: clamped_date_def year_def month_def day_def)
  have e: "form_data_vencimento form = fd \<longrightarrow>
      (\<exists>txs. create_expense_installments today usr gid form n = Inr txs
         \<and> map data_vencimento txs = map (\<lambda>idx. clamped_date fd (int idx)) [0..<n])"
    using expense_due_dates [of form n today usr gid] assms(1,3) n by blast
  have w: "payment_form_cleaned pform = Some (n, fd, cf) \<longrightarrow>
      workorder_payment_post today usr gid pa dc order pform db \<noteq> Inl (Excecao e)
      \<and> (workorder_payment_post today usr gid pa dc order pform db = Inr (db', created)
          \<longrightarrow> map data_vencimento created = map (\<lambda>idx. clamped_date fd (int idx)) [0..<n])"
  proof (intro impI conjI)
    assume p: "payment_form_cleaned pform = Some (n, fd, cf)"
    show "workorder_payment_post today usr gid pa dc order pform db \<noteq> Inl (Excecao e)"
      by (rule workorder_due_dates(1) [OF assms(1,3) p])
  next
    assume p: "payment_form_cleaned pform = Some (n, fd, cf)"
      and r: "workorder_payment_post today usr gid pa dc order pform db = Inr (db', created)"
    show "map data_vencimento created = map (\<lambda>idx. clamped_date fd (int idx)) [0..<n]"
      by (rule workorder_due_dates(2) [OF assms(1,3) p r])
  qed
  show ?thesis by (intro conjI a v m d e w)
qed

theorem month_clamping_witness:
  "add_months (2024, 1, 31) 1 = Inr (2024, 2, 29)
   \<and> add_months (2026, 1, 31) 1 = Inr (2026, 2, 28)
   \<and> add_months (2026, 1, 31) 2 = Inr (2026, 3, 31)
   \<and> create_expense_installments (2026, 1, 10) 1 99 expense_form_example 3
       = Inr expense_installments_example
   \<and> map data_vencimento expense_installments_example
       = [(2026, 1, 31), (2026, 2, 28), (2026, 3, 31)]
   \<and> workorder_payment_post (2026, 1, 25) 1 99 (Some 1) (Some cat_servicos) order_example
        payment_form_example [] = Inr ([], installments_example)
   \<and> map data_vencimento installments_example
       = [(2026, 1, 31), (2026, 2, 28), (2026, 3, 31)]"
proof -
  have v: "valid_date (2024, 1, 31)" "valid_date (2026, 1, 31)"
    by (simp_all add: valid_date_def year_def month_def day_def MAXYEAR_def days_in_month_def)
  have t: "target_year (2024, 1, 31) (int 3 - 1) \<le> MAXYEAR"
    "target_year (2026, 1, 31) (int 3 - 1) \<le> MAXYEAR"
    by (simp_all add: target_year_def year_def month_def MAXYEAR_def)
  have c: "clamped_date (2024, 1, 31) (int 1) = (2024, 2, 29)"
    "clamped_date (2026, 1, 31) (int 1) = (2026, 2, 28)"
    "clamped_date (2026, 1, 31) (int 2) = (2026, 3, 31)"
    by (simp_all add: clamped_date_def target_year_def target_month_def year_def month_def
        day_def days_in_month_def is_leap_def)
  have i: "(1::nat) < 3" "(2::nat) < 3" by simp_all
  have a1: "add_months (2024, 1, 31) (int 1) = Inr (2024, 2, 29)"
    using month_clamping [OF v(1) i(1) t(1)] c(1) by simp
  have a2: "add_months (2026, 1, 31) (int 1) = Inr (2026, 2, 28)"
    using month_clamping [OF v(2) i(1) t(2)] c(2) by simp
  have a3: "add_months (2026, 1, 31) (int 2) = Inr (2026, 3, 31)"
    using month_clamping [OF v(2) i(2) t(2)] c(3) by simp
  have d1: "map data_vencimento expense_installments_example
       = [(2026, 1, 31), (2026, 2, 28), (2026, 3, 31)]"
    by (simp add: expense_installments_example_def expense_installment_example_def)
  have d2: "map data_vencimento installments_example
       = [(2026, 1, 31), (2026, 2, 28), (2026, 3, 31)]"
    by (simp add: installments_example_def installment_example_def)
  from a1 a2 a3 have "add_months (2024, 1, 31) 1 = Inr (2024, 2, 29)"
    "add_months (2026, 1, 31) 1 = Inr (2026, 2, 28)"
    "add_months (2026, 1, 31) 2 = Inr (2026, 3, 31)"
    by simp_all
  then show ?thesis
    by (intro conjI expense_example_created workorder_example_created d1 d2)
qed

section \<open>Category classifier\<close>

text \<open>
  C4. A category that carries an explicit income-statement group is to be counted in
  exactly that group, whatever its name. The chain does test the explicit group in each
  branch, but together with the keywords of the branch, so a keyword of an earlier branch
  wins over the explicit group, and the two groups that the chain only reaches as its
  defaults are never compared: an explicit operating revenue or administrative expense
  classifies like no group at all, for every name and every lowercasing. With the
  lowercasing of ASCII names, the expense category "Comissao de vendas" with the explicit
  group selling expense is counted as sales tax ("comissao" contains "iss"), the income
  category "Juros recebidos" with the explicit group operating revenue as financial
  revenue, the expense category "Taxa de Marketing" with the explicit group financial
  expense as selling expense, and the expense category "Impostos" with the explicit group
  administrative expense as sales tax.
\<close>

theorem classify_explicit_group_overridden:
  "classify lower t name (group_name ReceitaOperacional) = classify lower t name ''''
   \<and> classify lower t name (group_name DespesasGeraisAdm) = classify lower t name ''''
   \<and> classify ascii_lower Despesa ''Comissao de vendas'' (group_name DespesasVenda)
       = ImpostosVenda
   \<and> classify ascii_lower Receita ''Juros recebidos'' (group_name ReceitaOperacional)
       = ReceitaFinanceira
   \<and> classify ascii_lower Despesa ''Taxa de Marketing'' (group_name DespesasFinanceiras)
       = DespesasVenda
   \<and> classify ascii_lower Despesa ''Impostos'' (group_name DespesasGeraisAdm)
       = ImpostosVenda"
proof -
  have a: "classify lower t name (group_name ReceitaOperacional) = classify lower t name ''''"
    by (simp add: classify_def)
  have b: "classify lower t name (group_name DespesasGeraisAdm) = classify lower t name ''''"
    by (simp add: classify_def)
  have c: "classify ascii_lower Despesa ''Comissao de vendas'' (group_name DespesasVenda)
       = ImpostosVenda"
    by code_simp
  have d: "classify ascii_lower Receita ''Juros recebidos'' (group_name ReceitaOperacional)
       = ReceitaFinanceira"
    by code_simp
  have e: "classify ascii_lower Despesa ''Taxa de Marketing'' (group_name DespesasFinanceiras)
       = DespesasVenda"
    by code_simp
  have f: "classify ascii_lower Despesa ''Impostos'' (group_name DespesasGeraisAdm)
       = ImpostosVenda"
    by code_simp
  show ?thesis by (intro conjI a b c d e f)
qed

section \<open>Reports\<close>

lemma apply_phase_filter_field:
  "snd (apply_phase_filter qs phase start_date end_date) = DataVencimento"
  by (simp add: apply_phase_filter_def Let_def)

lemma apply_phase_filter_status:
  "tx \<in> set (fst (apply_phase_filter qs phase start_date end_date)) \<Longrightarrow>
     (if phase = ''futuro'' then status tx = Previsto \<or> status tx = Atrasado
      else status tx = Realizado)"
  by (auto simp: apply_phase_filter_def Let_def split: if_splits)

lemma month_list_two_months:
  "month_list (2026, 1, 1) (2026, 2, 28) = Inr [(2026, 1, 1), (2026, 2, 1)]"
  by code_simp

lemma month_list_one_month: "month_list (2026, 1, 1) (2026, 1, 31) = Inr [(2026, 1, 1)]"
  by code_simp

lemma dre_net_paid_next_month:
  "map_sum id lucro_liquido
     (build_dre_context lower [tx_paid_next_month] (2026, 1, 1) (2026, 2, 28) ''consolidado''
        None None None) = Inr [10000, 0]"
proof (cases "classify lower Receita ''Servicos'' '''' = ReceitaFinanceira")
  case True
  then show ?thesis
    by (simp add: build_dre_context_def get_finance_queryset_def apply_phase_filter_def
        month_list_two_months values_annotate_def tx_paid_next_month_def tx_example_def
        cat_servicos_def field_date_def trunc_month_def month_index_def month_key_def year_def
        month_def Let_def upt_rec numeral_2_eq_2)
next
  case False
  then have "classify lower Receita ''Servicos'' '''' = ReceitaOperacional"
    by (simp add: classify_def split: if_splits)
  then show ?thesis
    by (simp add: build_dre_context_def get_finance_queryset_def apply_phase_filter_def
        month_list_two_months values_annotate_def tx_paid_next_month_def tx_example_def
        cat_servicos_def field_date_def trunc_month_def month_index_def month_key_def year_def
        month_def Let_def upt_rec numeral_2_eq_2)
qed

lemma dre_net_due_last_year:
  "map_sum id lucro_liquido
     (build_dre_context lower [tx_due_last_year] (2026, 1, 1) (2026, 1, 31) ''consolidado''
        None None None) = Inr [0]"
  by (simp add: build_dre_context_def get_finance_queryset_def apply_phase_filter_def
      month_list_one_month values_annotate_def tx_due_last_year_def tx_example_def
      Let_def upt_rec)

text \<open>
  C2. In the realized phase the income statement selects the realized transactions, but
  it takes both its date range and its month columns from the due date: the date column
  that \<open>apply_phase_filter\<close> returns is the due date in every phase. A realized
  transaction due on 2026-01-31 and paid on 2026-02-02 is counted in the January column
  of the report for January and February, and one due on 2025-12-20 and paid on
  2026-01-05 is missing from the report for January 2026. The net result shows both
  whatever the lowercasing of names is; the revenue row is given for the ASCII names of
  the example.
\<close>

theorem dre_realized_uses_due_date:
  "snd (apply_phase_filter qs phase start_date end_date) = DataVencimento
   \<and> status tx_paid_next_month = Realizado
   \<and> data_vencimento tx_paid_next_month = (2026, 1, 31)
   \<and> data_pagamento tx_paid_next_month = Some (2026, 2, 2)
   \<and> map_sum id dre_months
        (build_dre_context ascii_lower [tx_paid_next_month] (2026, 1, 1) (2026, 2, 28)
           ''consolidado'' None None None) = Inr [(2026, 1, 1), (2026, 2, 1)]
   \<and> map_sum id receita_operacional
        (build_dre_context ascii_lower [tx_paid_next_month] (2026, 1, 1) (2026, 2, 28)
           ''consolidado'' None None None) = Inr [10000, 0]
   \<and> status tx_due_last_year = Realizado
   \<and> data_pagamento tx_due_last_year = Some (2026, 1, 5)
   \<and> map_sum id receita_operacional
        (build_dre_context ascii_lower [tx_due_last_year] (2026, 1, 1) (2026, 1, 31)
           ''consolidado'' None None None) = Inr [0]
   \<and> map_sum id lucro_liquido
        (build_dre_context lower [tx_paid_next_month] (2026, 1, 1) (2026, 2, 28)
           ''consolidado'' None None None) = Inr [10000, 0]
   \<and> map_sum id lucro_liquido
        (build_dre_context lower [tx_due_last_year] (2026, 1, 1) (2026, 1, 31)
           ''consolidado'' None None None) = Inr [0]"
proof -
  have a: "map_sum id dre_months
        (build_dre_context ascii_lower [tx_paid_next_month] (2026, 1, 1) (2026, 2, 28)
           ''consolidado'' None None None) = Inr [(2026, 1, 1), (2026, 2, 1)]"
    by code_simp
  have b: "map_sum id receita_operacional
        (build_dre_context ascii_lower [tx_paid_next_month] (2026, 1, 1) (2026, 2, 28)
           ''consolidado'' None None None) = Inr [10000, 0]"
    by code_simp
  have c: "map_sum id receita_operacional
        (build_dre_context ascii_lower [tx_due_last_year] (2026, 1, 1) (2026, 1, 31)
           ''consolidado'' None None None) = Inr [0]"
    by code_simp
  have d: "status tx_paid_next_month = Realizado"
    "data_vencimento tx_paid_next_month = (2026, 1, 31)"
    "data_pagamento tx_paid_next_month = Some (2026, 2, 2)"
    "status tx_due_last_year = Realizado"
    "data_pagamento tx_due_last_year = Some (2026, 1, 5)"
    by (simp_all add: tx_paid_next_month_def tx_due_last_year_def)
  show ?thesis
    by (intro conjI apply_phase_filter_field a b c d dre_net_paid_next_month
        dre_net_due_last_year)
qed

lemma cashflow_final_is_net:
  assumes "build_cashflow_context db start_date end_date phase account_id category_id usr
             = Inr ctx"
  shows "saldo_inicial_total ctx = 0 \<and> totals_saldo_final_list ctx = totals_saldo_list ctx"
proof -
  obtain qs' date_field where q: "apply_phase_filter
      (get_finance_queryset db usr account_id category_id) phase start_date end_date
      = (qs', date_field)"
    by (cases "apply_phase_filter (get_finance_queryset db usr account_id category_id) phase
        start_date end_date") auto
  have e: "map (\<lambda>idx. 0 + map f [0..<n] ! idx) [0..<n] = map f [0..<n]"
    for f :: "nat \<Rightarrow> int" and n
    by (simp add: list_eq_iff_nth_eq)
  from assms show ?thesis
    unfolding build_cashflow_context_def Let_def q
    by (auto split: sum.splits simp: e)
qed

text \<open>
  C3. The cashflow builder sets the opening total to the constant zero and adds to it
  the result of each month alone. With one active account opened at 1000.00, a result of
  100.00 in January and of 50.00 in February, its series of final balances is 100.00 and
  50.00, where the running balance of the specification is 1100.00 and 1150.00; the loop
  of the cashflow view carries the balance from month to month, from zero.
\<close>

theorem cashflow_running_balance_not_carried:
  "map_sum id totals_saldo_list
     (build_cashflow_context [tx_paid_next_month, tx_paid_february] (2026, 1, 1) (2026, 2, 28)
        ''consolidado'' None None None) = Inr [10000, 5000]
   \<and> map_sum id totals_saldo_final_list
     (build_cashflow_context [tx_paid_next_month, tx_paid_february] (2026, 1, 1) (2026, 2, 28)
        ''consolidado'' None None None) = Inr [10000, 5000]
   \<and> map_sum id saldo_inicial_total
     (build_cashflow_context [tx_paid_next_month, tx_paid_february] (2026, 1, 1) (2026, 2, 28)
        ''consolidado'' None None None) = Inr 0
   \<and> opening_balance_sum accounts_example = 100000
   \<and> described_running_balance accounts_example [10000, 5000] = [110000, 115000]
   \<and> view_saldo_loop 0 [10000, 5000] [] [] = ([0, 10000], [10000, 15000])"
proof -
  have a: "map_sum id totals_saldo_list
     (build_cashflow_context [tx_paid_next_month, tx_paid_february] (2026, 1, 1) (2026, 2, 28)
        ''consolidado'' None None None) = Inr [10000, 5000]"
    by code_simp
  have b: "map_sum id totals_saldo_final_list
     (build_cashflow_context [tx_paid_next_month, tx_paid_february] (2026, 1, 1) (2026, 2, 28)
        ''consolidado'' None None None) = Inr [10000, 5000]"
    by code_simp
  have c: "map_sum id saldo_inicial_total
     (build_cashflow_context [tx_paid_next_month, tx_paid_february] (2026, 1, 1) (2026, 2, 28)
        ''consolidado'' None None None) = Inr 0"
    by code_simp
  have d: "opening_balance_sum accounts_example = 100000"
    by (simp add: opening_balance_sum_def accounts_example_def)
  have e: "described_running_balance accounts_example [10000, 5000] = [110000, 115000]"
    by code_simp
  have f: "view_saldo_loop 0 [10000, 5000] [] [] = ([0, 10000], [10000, 15000])"
    by simp
  show ?thesis by (intro conjI a b c d e f)
qed

end
